theory Spec2Isabelle
  imports Complex_Main "HOL-Library.Sublist" "HOL-Library.AList"
begin

section \<open>Dispensary price scraper: field extractors, assembly, orchestration, loading\<close>

text \<open>
  A shallow embedding of the pure and the state-passing parts of the package
  \<^verbatim>\<open>agents/dispensary_scraper\<close>: the field extractors and the product assembly loop of
  \<^verbatim>\<open>tools.py\<close>, the result and session models of \<^verbatim>\<open>models.py\<close>, the per-category
  orchestration of \<^verbatim>\<open>agent.py\<close> and the bulk loader of \<^verbatim>\<open>snowflake_client.py\<close>.

  Python strings are modelled as \<^typ>\<open>string\<close>, so a character is one of the 256 code
  points of Latin-1; the character classes below follow Python's Unicode tables on that
  range. Python floats that hold decimal literals read from the page are modelled by the
  exact rational they denote.
\<close>

subsection \<open>Python primitives used by the code\<close>

datatype py_error = AttributeError | IndexError

text \<open>
  \<^verbatim>\<open>s.split(sep, 1)\<close> for a non-empty separator: the text before and after the leftmost
  occurrence of \<^verbatim>\<open>sep\<close>, or the whole string alone when there is none.
\<close>

fun split_first :: "string \<Rightarrow> string \<Rightarrow> (string \<times> string) option" where
  "split_first sep [] = None"
| "split_first sep (c # cs) =
     (if prefix sep (c # cs) then Some ([], drop (length sep) (c # cs))
      else (case split_first sep cs of
              None \<Rightarrow> None
            | Some (a, b) \<Rightarrow> Some (c # a, b)))"

definition py_split1 :: "string \<Rightarrow> string \<Rightarrow> string list" where
  "py_split1 sep s = (case split_first sep s of None \<Rightarrow> [s] | Some (a, b) \<Rightarrow> [a, b])"

text \<open>\<^verbatim>\<open>xs[i]\<close> for a non-negative index: out of range raises.\<close>

definition py_index :: "'a list \<Rightarrow> nat \<Rightarrow> py_error + 'a" where
  "py_index xs i = (if i < length xs then Inr (xs ! i) else Inl IndexError)"

text \<open>\<^verbatim>\<open>s.strip(ch)\<close> for a single character \<^verbatim>\<open>ch\<close>.\<close>

definition py_strip :: "char \<Rightarrow> string \<Rightarrow> string" where
  "py_strip ch s = rev (dropWhile (\<lambda>c. c = ch) (rev (dropWhile (\<lambda>c. c = ch) s)))"

subsection \<open>Product slug\<close>

text \<open>
  \<^verbatim>\<open>
  def product_slug(href: Optional[str]) -> str:
      try:
          return href.split("/product/", 1)[1].split("?", 1)[0].split("#", 1)[0].strip("/")
      except:
          return href or ""
  \<close>
  \<open>slug_body\<close> is the \<^verbatim>\<open>try\<close> block, with the exception it raises as a value:
  \<^verbatim>\<open>None.split\<close> is an AttributeError, a missing second part an IndexError.
\<close>

definition PRODUCT_MARKER :: string where
  "PRODUCT_MARKER = ''/product/''"

definition slug_body :: "string option \<Rightarrow> py_error + string" where
  "slug_body href =
     (case href of
        None \<Rightarrow> Inl AttributeError
      | Some h \<Rightarrow>
          (case py_index (py_split1 PRODUCT_MARKER h) 1 of
             Inl e \<Rightarrow> Inl e
           | Inr r \<Rightarrow>
               (case py_index (py_split1 ''?'' r) 0 of
                  Inl e \<Rightarrow> Inl e
                | Inr q \<Rightarrow>
                    (case py_index (py_split1 ''#'' q) 0 of
                       Inl e \<Rightarrow> Inl e
                     | Inr f \<Rightarrow> Inr (py_strip CHR ''/'' f)))))"

definition product_slug :: "string option \<Rightarrow> string" where
  "product_slug href =
     (case slug_body href of
        Inr s \<Rightarrow> s
      | Inl e \<Rightarrow> (case href of None \<Rightarrow> [] | Some h \<Rightarrow> if h = [] then [] else h))"

subsection \<open>Character classes and decimal literals\<close>

text \<open>
  \<^verbatim>\<open>[0-9]\<close> is the ten ASCII digits. \<^verbatim>\<open>\s\<close> in a Python 3 \<^verbatim>\<open>str\<close> pattern is
  \<^verbatim>\<open>str.isspace\<close>: on Latin-1 the code points 9 to 13, 28 to 32, 133 and 160.
\<close>

definition is_digit :: "char \<Rightarrow> bool" where
  "is_digit c = (48 \<le> (of_char c :: nat) \<and> (of_char c :: nat) \<le> 57)"

definition is_space :: "char \<Rightarrow> bool" where
  "is_space c =
     (let n = (of_char c :: nat)
      in (9 \<le> n \<and> n \<le> 13) \<or> (28 \<le> n \<and> n \<le> 32) \<or> n = 133 \<or> n = 160)"

text \<open>
  \<^verbatim>\<open>float(m.group(1))\<close> on a matched literal \<^verbatim>\<open>ip\<close> or \<^verbatim>\<open>ip.fp\<close> of ASCII digits: the
  rational the literal denotes (the float is the double nearest to it).
\<close>

definition digit_val :: "char \<Rightarrow> nat" where
  "digit_val c = of_char c - 48"

definition digits_val :: "string \<Rightarrow> nat" where
  "digits_val ds = foldl (\<lambda>a c. 10 * a + digit_val c) 0 ds"

definition decimal_val :: "string \<Rightarrow> string \<Rightarrow> rat" where
  "decimal_val ip fp = of_nat (digits_val ip) + of_nat (digits_val fp) / 10 ^ length fp"

subsection \<open>Price extraction\<close>

text \<open>
  \<^verbatim>\<open>PRICE_RE = re.compile(r"\$\s*([0-9]+(?:\.[0-9]{2})?)")\<close>

  \<open>price_at s\<close> is \<^verbatim>\<open>PRICE_RE.match\<close> at the start of \<open>s\<close>: the value of group 1 and the
  text after the match. Each quantifier is greedy and nothing follows the optional
  fraction, so the first way the pattern matches is the greedy one: a dollar sign, every
  whitespace character, every digit, and the fraction when a dot and two digits follow.
  Giving whitespace back cannot help, since a digit must come next.
\<close>

definition price_at :: "string \<Rightarrow> (rat \<times> string) option" where
  "price_at s =
     (case s of
        [] \<Rightarrow> None
      | c # r \<Rightarrow>
          if c \<noteq> CHR ''$'' then None
          else
            let r1 = dropWhile is_space r;
                ip = takeWhile is_digit r1;
                r2 = dropWhile is_digit r1
            in if ip = [] then None
               else (case r2 of
                       d # a # b # r3 \<Rightarrow>
                         if d = CHR ''.'' \<and> is_digit a \<and> is_digit b
                         then Some (decimal_val ip [a, b], r3)
                         else Some (decimal_val ip [], r2)
                     | _ \<Rightarrow> Some (decimal_val ip [], r2)))"

text \<open>
  \<^verbatim>\<open>[float(m.group(1)) for m in PRICE_RE.finditer(blob)]\<close>: the matches from left to
  right, the search resuming where the last match ended.
\<close>

function price_finditer :: "string \<Rightarrow> rat list" where
  "price_finditer [] = []"
| "price_finditer (c # cs) =
     (case price_at (c # cs) of
        Some (v, rest) \<Rightarrow> v # price_finditer rest
      | None \<Rightarrow> price_finditer cs)"
  by pat_completeness auto
termination
proof (relation "measure length", goal_cases)
  case 1
  show ?case by simp
next
  case (2 c cs)
  show ?case by simp
next
  case (3 c cs m v rest)
  define r2 where "r2 = dropWhile is_digit (dropWhile is_space cs)"
  have le: "length r2 \<le> length cs"
    unfolding r2_def by (meson length_dropWhile_le le_trans)
  from 3 have "rest = r2 \<or> rest = drop 3 r2"
    by (auto simp: price_at_def Let_def r2_def [symmetric] split: list.splits if_splits)
  then have "length rest \<le> length r2" by auto
  with le show ?case by simp
qed

text \<open>\<^verbatim>\<open>min(vals)\<close> on a non-empty list (the code calls it on no other).\<close>

fun py_min :: "rat list \<Rightarrow> rat" where
  "py_min [] = 0"
| "py_min [x] = x"
| "py_min (x # y # ys) = min x (py_min (y # ys))"

text \<open>
  \<^verbatim>\<open>
  vals = [float(m.group(1)) for m in PRICE_RE.finditer(blob or "")]
  return min(vals) if vals else None
  \<close>
  the last two lines of \<^verbatim>\<open>extract_price_from_card\<close> and of \<^verbatim>\<open>extract_price_from_pdp\<close>.
\<close>

definition price_from_blob :: "string \<Rightarrow> rat option" where
  "price_from_blob blob =
     (let vals = price_finditer blob in if vals = [] then None else Some (py_min vals))"

text \<open>
  The specification's currency-formatted substring, read to the letter: a dollar sign
  with a digit right after it.
\<close>

fun spec_dollar_digits :: "string \<Rightarrow> bool" where
  "spec_dollar_digits (c # d # cs) =
     ((c = CHR ''$'' \<and> is_digit d) \<or> spec_dollar_digits (d # cs))"
| "spec_dollar_digits _ = False"

text \<open>
  The value at every position of the text where the price pattern matches, overlapping
  or not: what "all currency-formatted substrings" denotes.
\<close>

fun all_price_matches :: "string \<Rightarrow> rat list" where
  "all_price_matches [] = []"
| "all_price_matches (c # cs) =
     (case price_at (c # cs) of
        Some (v, rest) \<Rightarrow> v # all_price_matches cs
      | None \<Rightarrow> all_price_matches cs)"

subsection \<open>Words, case and literals in the patterns\<close>

text \<open>
  \<^verbatim>\<open>\w\<close> in a \<^verbatim>\<open>str\<close> pattern is \<^verbatim>\<open>str.isalnum\<close> or the underscore; \<^verbatim>\<open>str.lower\<close>
  moves the upper-case letters of Latin-1 by 32. \<^verbatim>\<open>\b\<close> holds between two positions
  of which exactly one is a word character; the ends of the text count as non-word.
\<close>

definition is_word :: "char \<Rightarrow> bool" where
  "is_word c =
     (let n = (of_char c :: nat)
      in (48 \<le> n \<and> n \<le> 57) \<or> (65 \<le> n \<and> n \<le> 90) \<or> n = 95 \<or> (97 \<le> n \<and> n \<le> 122)
         \<or> n = 170 \<or> n = 178 \<or> n = 179 \<or> n = 181 \<or> n = 185 \<or> n = 186
         \<or> (188 \<le> n \<and> n \<le> 190) \<or> (192 \<le> n \<and> n \<le> 214)
         \<or> (216 \<le> n \<and> n \<le> 246) \<or> (248 \<le> n \<and> n \<le> 255))"

definition py_lower_char :: "char \<Rightarrow> char" where
  "py_lower_char c =
     (let n = (of_char c :: nat)
      in if (65 \<le> n \<and> n \<le> 90) \<or> (192 \<le> n \<and> n \<le> 214) \<or> (216 \<le> n \<and> n \<le> 222)
         then char_of (n + 32) else c)"

definition py_lower :: "string \<Rightarrow> string" where
  "py_lower s = map py_lower_char s"

definition first_char :: "string \<Rightarrow> char option" where
  "first_char s = (case s of [] \<Rightarrow> None | c # _ \<Rightarrow> Some c)"

definition is_word_opt :: "char option \<Rightarrow> bool" where
  "is_word_opt p = (case p of None \<Rightarrow> False | Some c \<Rightarrow> is_word c)"

definition word_boundary :: "char option \<Rightarrow> char option \<Rightarrow> bool" where
  "word_boundary prev nxt = (is_word_opt prev \<noteq> is_word_opt nxt)"

text \<open>
  A literal of the pattern under \<^verbatim>\<open>re.I\<close>, given in lower case, at the start of the
  text: the characters it matched and the text after them. For the letters and signs of
  these patterns a character matches when its lower case is the pattern's character.
\<close>

fun ci_literal :: "string \<Rightarrow> string \<Rightarrow> (string \<times> string) option" where
  "ci_literal [] s = Some ([], s)"
| "ci_literal (p # ps) [] = None"
| "ci_literal (p # ps) (c # cs) =
     (if py_lower_char c = p
      then (case ci_literal ps cs of
              None \<Rightarrow> None
            | Some (m, rest) \<Rightarrow> Some (c # m, rest))
      else None)"

text \<open>\<^verbatim>\<open>pattern.search(text)\<close>: the match at the leftmost start that has one.\<close>

fun re_search :: "(char option \<Rightarrow> string \<Rightarrow> 'a option) \<Rightarrow> char option \<Rightarrow> string \<Rightarrow> 'a option" where
  "re_search match_at prev [] = match_at prev []"
| "re_search match_at prev (c # cs) =
     (case match_at prev (c # cs) of
        Some g \<Rightarrow> Some g
      | None \<Rightarrow> re_search match_at (Some c) cs)"

subsection \<open>Size and grams\<close>

text \<open>
  \<^verbatim>\<open>
  SIZE_RE = re.compile(r"\b(0\.5g|1g|2g|3\.5g|7g|10g|14g|28g)\b", re.I)
  SIZE_MAP = {"0.5g": 0.5, "1g": 1.0, "2g": 2.0, "3.5g": 3.5, "7g": 7.0,
              "10g": 10.0, "14g": 14.0, "28g": 28.0}

  def grams_from_size(s: Optional[str]) -> Optional[float]:
      return SIZE_MAP.get((s or "").lower())
  \<close>
  \<open>size_alt\<close> tries the alternatives in the pattern's order and keeps the first one
  after which the closing \<^verbatim>\<open>\b\<close> holds; \<open>SIZE_RE_search\<close> returns group 1 of
  \<^verbatim>\<open>SIZE_RE.search\<close>.
\<close>

definition SIZE_TOKENS :: "string list" where
  "SIZE_TOKENS = [''0.5g'', ''1g'', ''2g'', ''3.5g'', ''7g'', ''10g'', ''14g'', ''28g'']"

definition SIZE_MAP :: "string \<Rightarrow> rat option" where
  "SIZE_MAP = map_of
     [(''0.5g'', 1 / 2), (''1g'', 1), (''2g'', 2), (''3.5g'', 7 / 2), (''7g'', 7),
      (''10g'', 10), (''14g'', 14), (''28g'', 28)]"

fun size_alt :: "string list \<Rightarrow> string \<Rightarrow> string option" where
  "size_alt [] s = None"
| "size_alt (t # ts) s =
     (case ci_literal t s of
        None \<Rightarrow> size_alt ts s
      | Some (m, rest) \<Rightarrow>
          if word_boundary (Some (last m)) (first_char rest) then Some m
          else size_alt ts s)"

definition size_at :: "char option \<Rightarrow> string \<Rightarrow> string option" where
  "size_at prev s =
     (if word_boundary prev (first_char s) then size_alt SIZE_TOKENS s else None)"

definition SIZE_RE_search :: "string \<Rightarrow> string option" where
  "SIZE_RE_search text = re_search size_at None text"

definition grams_from_size :: "string option \<Rightarrow> rat option" where
  "grams_from_size s = SIZE_MAP (py_lower (case s of None \<Rightarrow> [] | Some x \<Rightarrow> x))"

subsection \<open>THC percentage\<close>

text \<open>
  \<^verbatim>\<open>
  THC_SINGLE_RE = re.compile(r"\bTHC\b[^0-9]*([0-9]+(?:\.[0-9]+)?)\s*%", re.I)
  THC_RANGE_RE = re.compile(
      r"\bTHC\b[^0-9]*([0-9]+(?:\.[0-9]+)?)\s*%[^0-9]+([0-9]+(?:\.[0-9]+)?)\s*%", re.I)
  \<close>
  Both patterns match in one way only at a given start. \<^verbatim>\<open>[^0-9]*\<close> must stop at the
  first digit, since a digit has to follow it. The number must take every digit, and
  the fraction with every digit of it when a dot and a digit follow, since the
  percent sign (after whitespace) has to follow the number and neither a digit nor a
  dot is one. So the backtracking search of \<^verbatim>\<open>re\<close> finds the greedy match or none.
\<close>

definition number_at :: "string \<Rightarrow> (rat \<times> string) option" where
  "number_at s =
     (let ip = takeWhile is_digit s; r = dropWhile is_digit s
      in if ip = [] then None
         else (case r of
                 d # r' \<Rightarrow>
                   if d = CHR ''.'' \<and> takeWhile is_digit r' \<noteq> []
                   then Some (decimal_val ip (takeWhile is_digit r'), dropWhile is_digit r')
                   else Some (decimal_val ip [], r)
               | [] \<Rightarrow> Some (decimal_val ip [], r)))"

text \<open>\<^verbatim>\<open>([0-9]+(?:\.[0-9]+)?)\s*%\<close> at the start of the text.\<close>

definition percent_at :: "string \<Rightarrow> (rat \<times> string) option" where
  "percent_at s =
     (case number_at s of
        None \<Rightarrow> None
      | Some (v, r) \<Rightarrow>
          (case dropWhile is_space r of
             c # r' \<Rightarrow> if c = CHR ''%'' then Some (v, r') else None
           | [] \<Rightarrow> None))"

text \<open>\<^verbatim>\<open>\bTHC\b[^0-9]*\<close> at the start of the text: what is left, from the first digit on.\<close>

definition thc_head :: "char option \<Rightarrow> string \<Rightarrow> string option" where
  "thc_head prev s =
     (if word_boundary prev (first_char s)
      then (case ci_literal ''thc'' s of
              None \<Rightarrow> None
            | Some (m, rest) \<Rightarrow>
                if word_boundary (Some (last m)) (first_char rest)
                then Some (dropWhile (\<lambda>c. \<not> is_digit c) rest)
                else None)
      else None)"

definition thc_single_at :: "char option \<Rightarrow> string \<Rightarrow> rat option" where
  "thc_single_at prev s =
     (case thc_head prev s of
        None \<Rightarrow> None
      | Some r \<Rightarrow> (case percent_at r of None \<Rightarrow> None | Some (v, r1) \<Rightarrow> Some v))"

definition thc_range_at :: "char option \<Rightarrow> string \<Rightarrow> (rat \<times> rat) option" where
  "thc_range_at prev s =
     (case thc_head prev s of
        None \<Rightarrow> None
      | Some r \<Rightarrow>
          (case percent_at r of
             None \<Rightarrow> None
           | Some (v1, r1) \<Rightarrow>
               if takeWhile (\<lambda>c. \<not> is_digit c) r1 = [] then None
               else (case percent_at (dropWhile (\<lambda>c. \<not> is_digit c) r1) of
                       None \<Rightarrow> None
                     | Some (v2, r2) \<Rightarrow> Some (v1, v2))))"

definition THC_SINGLE_RE_search :: "string \<Rightarrow> rat option" where
  "THC_SINGLE_RE_search text = re_search thc_single_at None text"

definition THC_RANGE_RE_search :: "string \<Rightarrow> (rat \<times> rat) option" where
  "THC_RANGE_RE_search text = re_search thc_range_at None text"

text \<open>
  \<^verbatim>\<open>
  thc_pct = None
  mr = THC_RANGE_RE.search(card_text)
  if mr:
      try:
          thc_pct = float(mr.group(1))
      except:
          pass
  if thc_pct is None:
      ms = THC_SINGLE_RE.search(card_text)
      if ms:
          try:
              thc_pct = float(ms.group(1))
          except:
              pass
  \<close>
  Group 1 is a digit string with an optional fraction, on which \<^verbatim>\<open>float\<close> does not raise.
\<close>

definition extract_thc :: "string \<Rightarrow> rat option" where
  "extract_thc card_text =
     (case THC_RANGE_RE_search card_text of
        Some (lo, hi) \<Rightarrow> Some lo
      | None \<Rightarrow>
          (case THC_SINGLE_RE_search card_text of
             Some v \<Rightarrow> Some v
           | None \<Rightarrow> None))"

text \<open>
  The lower bound of a range, as the specification names the value extracted from a
  range match.
\<close>

definition spec_lower_bound :: "rat \<times> rat \<Rightarrow> rat" where
  "spec_lower_bound bounds = min (fst bounds) (snd bounds)"

subsection \<open>Product assembly\<close>

text \<open>
  What the page returns for one product link, in the order \<^verbatim>\<open>scrape_category\<close> asks for
  it. The browser is outside the code: a link for which some call raises outside the
  helpers' own \<^verbatim>\<open>try\<close> blocks is \<open>LinkRaises\<close>, and the loop's \<^verbatim>\<open>except: continue\<close>
  skips it. The helpers that catch their own exceptions return \<^verbatim>\<open>None\<close> instead.
  Brand and strain type are carried as the helpers found them.
\<close>

record link_obs =
  link_text :: "string option"
  link_href :: "string option"
  link_url :: string
  card_count :: nat
  card_inner :: string
  price_elems :: "string option list option"
  card_brand :: "string option"
  pdp_body :: "string option"
  pdp_brand :: "string option"
  strain_found :: "string option"

datatype link_result = LinkRaises | LinkObserved link_obs

text \<open>The dictionary appended to \<^verbatim>\<open>rows\<close>, later the fields of \<^verbatim>\<open>ProductData\<close>.\<close>

record product_row =
  state :: string
  store :: string
  subcategory :: string
  name :: string
  brand :: "string option"
  strain_type :: "string option"
  thc_pct :: "rat option"
  size_raw :: "string option"
  grams :: "rat option"
  price :: "rat option"
  price_per_g :: "rat option"
  url :: "string option"

type_synonym dedup_key = "string \<times> string \<times> string option \<times> string"

text \<open>\<^verbatim>\<open>s.strip()\<close>: whitespace removed at both ends.\<close>

definition py_strip_ws :: "string \<Rightarrow> string" where
  "py_strip_ws s = rev (dropWhile is_space (rev (dropWhile is_space s)))"

text \<open>\<^verbatim>\<open>" ".join(texts)\<close>\<close>

fun join_spaces :: "string list \<Rightarrow> string" where
  "join_spaces [] = []"
| "join_spaces [t] = t"
| "join_spaces (t # u # ts) = t @ '' '' @ join_spaces (u # ts)"

text \<open>
  \<^verbatim>\<open>round(x, 2)\<close>, idealised to exact arithmetic: the exact quotient to the nearest
  hundredth, a tie to the even one. The code rounds the double nearest to the quotient
  of two doubles, which can fall on the other side of a tie: for 10.05 / 2.0 the code
  gives 5.03 and this function 5.02. The properties below are about whether the price per
  gram is present; none of them reads the rounded value.
\<close>

definition py_round2 :: "rat \<Rightarrow> rat" where
  "py_round2 x =
     (let y = x * 100; f = \<lfloor>y\<rfloor>; d = y - of_int f
      in (if d < 1 / 2 then of_int f
          else if 1 / 2 < d then of_int (f + 1)
          else if even f then of_int f else of_int (f + 1)) / 100)"

text \<open>
  \<^verbatim>\<open>
  async def extract_price_from_card(card) -> Optional[float]:
      c = card.locator(".price, [class*='price'], :text('$'):not(:text('Add to Wishlist'))")
      try:
          n = min(await c.count(), 4)
          texts = []
          for i in range(n):
              t = await c.nth(i).text_content()
              if t and "$" in t:
                  texts.append(t)
          blob = " ".join(texts) if texts else (await card.inner_text())
      except:
          blob = (await card.inner_text())
      vals = [float(m.group(1)) for m in PRICE_RE.finditer(blob or "")]
      return min(vals) if vals else None
  \<close>
\<close>

definition price_texts :: "string option list \<Rightarrow> string list" where
  "price_texts els =
     concat (map (\<lambda>e. case e of
                        None \<Rightarrow> []
                      | Some t \<Rightarrow> if t \<noteq> [] \<and> CHR ''$'' \<in> set t then [t] else [])
                 (take (min (length els) 4) els))"

definition extract_price_from_card :: "link_obs \<Rightarrow> rat option" where
  "extract_price_from_card ob =
     (let blob = (case price_elems ob of
                    None \<Rightarrow> card_inner ob
                  | Some els \<Rightarrow>
                      if price_texts els \<noteq> [] then join_spaces (price_texts els)
                      else card_inner ob)
      in price_from_blob blob)"

text \<open>
  \<^verbatim>\<open>extract_price_from_pdp\<close>: the minimum over the body text of the detail page, and
  \<^verbatim>\<open>None\<close> when fetching it raised.
\<close>

definition extract_price_from_pdp :: "link_obs \<Rightarrow> rat option" where
  "extract_price_from_pdp ob =
     (case pdp_body ob of None \<Rightarrow> None | Some body \<Rightarrow> price_from_blob body)"

text \<open>Python truthiness of an optional string and of an optional float.\<close>

definition truthy_str :: "string option \<Rightarrow> bool" where
  "truthy_str s = (case s of None \<Rightarrow> False | Some t \<Rightarrow> t \<noteq> [])"

definition truthy_num :: "rat option \<Rightarrow> bool" where
  "truthy_num x = (case x of None \<Rightarrow> False | Some v \<Rightarrow> v \<noteq> 0)"

text \<open>\<^verbatim>\<open>round(price / grams, 2) if price and grams else None\<close>\<close>

definition price_per_gram :: "rat option \<Rightarrow> rat option \<Rightarrow> rat option" where
  "price_per_gram pr gr =
     (case pr of
        None \<Rightarrow> None
      | Some p \<Rightarrow>
          (case gr of
             None \<Rightarrow> None
           | Some g \<Rightarrow> if truthy_num pr \<and> truthy_num gr then Some (py_round2 (p / g)) else None))"

text \<open>
  One pass of the loop body of \<^verbatim>\<open>scrape_category\<close>, up to the deduplication key:
  \<^verbatim>\<open>
  name = ((await link.text_content()) or "").strip()
  if not name:
      continue
  href = await link.get_attribute("href")
  url = urljoin(BASE, href) if href else None
  slug = product_slug(href or "")
  card = link.locator("xpath=ancestor::*[self::article or self::li or self::div][1]")
  card_text = (await card.inner_text()) if await card.count() else name
  size = (SIZE_RE.search(card_text).group(1).lower() if SIZE_RE.search(card_text) else None)
  grams = grams_from_size(size)
  price = await extract_price_from_card(card)
  brand = await extract_brand_from_card(card)
  if (price is None or brand is None) and url:
      if price is None:
          p = await extract_price_from_pdp(ctx, url)
          if p is not None:
              price = p
      if brand is None:
          b = await extract_brand_from_pdp(ctx, url)
          if b:
              brand = b
  ...
  key = (store_name, slug, size, subcategory)
  \<close>
  and the row
  \<^verbatim>\<open>
  {"state": "FL", "store": store_name, "subcategory": subcategory, "name": name,
   "brand": brand, "strain_type": strain_type, "thc_pct": thc_pct, "size_raw": size,
   "grams": grams, "price": price,
   "price_per_g": (round(price / grams, 2) if price and grams else None), "url": url}
  \<close>
  The result is \<open>None\<close> where the pass ends in \<^verbatim>\<open>continue\<close> before the key is looked up.
\<close>

definition assemble :: "string \<Rightarrow> string \<Rightarrow> link_result \<Rightarrow> (dedup_key \<times> product_row) option" where
  "assemble store_name subcat lr =
     (case lr of
        LinkRaises \<Rightarrow> None
      | LinkObserved ob \<Rightarrow>
          let nm = py_strip_ws (case link_text ob of None \<Rightarrow> [] | Some t \<Rightarrow> t)
          in if nm = [] then None
             else
               let href = link_href ob;
                   u = (if truthy_str href then Some (link_url ob) else None);
                   slug = product_slug (Some (case href of None \<Rightarrow> [] | Some h \<Rightarrow> h));
                   card_text = (if card_count ob \<noteq> 0 then card_inner ob else nm);
                   size = (case SIZE_RE_search card_text of
                             Some g \<Rightarrow> Some (py_lower g)
                           | None \<Rightarrow> None);
                   gr = grams_from_size size;
                   price0 = extract_price_from_card ob;
                   brand0 = card_brand ob;
                   fallback = ((price0 = None \<or> brand0 = None) \<and> truthy_str u);
                   pr = (if fallback \<and> price0 = None
                         then (case extract_price_from_pdp ob of
                                 Some p \<Rightarrow> Some p
                               | None \<Rightarrow> price0)
                         else price0);
                   br = (if fallback \<and> brand0 = None
                         then (if truthy_str (pdp_brand ob) then pdp_brand ob else brand0)
                         else brand0);
                   thc = extract_thc card_text;
                   key = (store_name, slug, size, subcat)
               in Some (key,
                    \<lparr>state = ''FL'', store = store_name, subcategory = subcat, name = nm,
                     brand = br, strain_type = strain_found ob, thc_pct = thc,
                     size_raw = size, grams = gr, price = pr,
                     price_per_g = price_per_gram pr gr, url = u\<rparr>))"

text \<open>
  The loop over the product links, with the set of keys seen so far:
  \<^verbatim>\<open>
  rows, seen = [], set()
  for link in name_links:
      try:
          ...
          key = (store_name, slug, size, subcategory)
          if key in seen:
              continue
          seen.add(key)
          rows.append({...})
      except:
          continue
  return rows
  \<close>
\<close>

fun scrape_loop :: "string \<Rightarrow> string \<Rightarrow> link_result list \<Rightarrow> dedup_key set \<Rightarrow> product_row list" where
  "scrape_loop store_name subcat [] seen = []"
| "scrape_loop store_name subcat (l # ls) seen =
     (case assemble store_name subcat l of
        None \<Rightarrow> scrape_loop store_name subcat ls seen
      | Some (key, row) \<Rightarrow>
          if key \<in> seen then scrape_loop store_name subcat ls seen
          else row # scrape_loop store_name subcat ls (insert key seen))"

definition scrape_category :: "string \<Rightarrow> string \<Rightarrow> link_result list \<Rightarrow> product_row list" where
  "scrape_category store_name subcat name_links = scrape_loop store_name subcat name_links {}"

subsection \<open>Validation of a row into ProductData\<close>

text \<open>
  \<^verbatim>\<open>ProductData(**row)\<close> runs the field validators of \<^verbatim>\<open>models.py\<close>: an unknown
  subcategory raises, the other fields are set to \<^verbatim>\<open>None\<close> when out of range.
  \<^verbatim>\<open>
  validate_strain_type: if v is not None and v not in ["Indica", "Sativa", "Hybrid"]: return None
  validate_subcategory: if v not in valid_categories: raise ValueError(...)
  validate_thc_pct:     if v is not None and (v < 0 or v > 100): return None
  validate_prices:      if v is not None and v < 0: return None      (price, price_per_g)
  validate_grams:       if v is not None and v <= 0: return None
  \<close>
\<close>

definition VALID_CATEGORIES :: "string list" where
  "VALID_CATEGORIES = [''Whole Flower'', ''Pre-Rolls'', ''Ground & Shake'']"

definition validate_strain_type :: "string option \<Rightarrow> string option" where
  "validate_strain_type v =
     (case v of
        None \<Rightarrow> None
      | Some s \<Rightarrow> if s \<notin> set [''Indica'', ''Sativa'', ''Hybrid''] then None else Some s)"

definition validate_thc_pct :: "rat option \<Rightarrow> rat option" where
  "validate_thc_pct v =
     (case v of None \<Rightarrow> None | Some x \<Rightarrow> if x < 0 \<or> 100 < x then None else Some x)"

definition validate_prices :: "rat option \<Rightarrow> rat option" where
  "validate_prices v =
     (case v of None \<Rightarrow> None | Some x \<Rightarrow> if x < 0 then None else Some x)"

definition validate_grams :: "rat option \<Rightarrow> rat option" where
  "validate_grams v =
     (case v of None \<Rightarrow> None | Some x \<Rightarrow> if x \<le> 0 then None else Some x)"

datatype validation_error = ValueError

definition ProductData :: "product_row \<Rightarrow> validation_error + product_row" where
  "ProductData row =
     (if subcategory row \<notin> set VALID_CATEGORIES then Inl ValueError
      else Inr (row\<lparr>strain_type := validate_strain_type (strain_type row),
                    thc_pct := validate_thc_pct (thc_pct row),
                    price := validate_prices (price row),
                    price_per_g := validate_prices (price_per_g row),
                    grams := validate_grams (grams row)\<rparr>))"

subsection \<open>A product link as a category page shows it\<close>

text \<open>
  A link with its text, its \<^verbatim>\<open>href\<close> and the text of its card, on a card whose price
  locator finds no element (so the price is read from the card's text) and whose brand
  element reads \<^verbatim>\<open>Trulieve\<close>. It stands for the links whose \<^verbatim>\<open>href\<close> is a path from the
  site's root, for which \<^verbatim>\<open>urljoin(BASE, href)\<close> puts the path after \<^verbatim>\<open>BASE\<close>, and whose
  card text names no strain type, so that none is found. The theorems below run the
  scrape on pages of such links only.
\<close>

definition card_link :: "string \<Rightarrow> string \<Rightarrow> string \<Rightarrow> link_result" where
  "card_link nm href txt =
     LinkObserved
       \<lparr>link_text = Some nm, link_href = Some href,
        link_url = ''https://www.trulieve.com'' @ href,
        card_count = 1, card_inner = txt, price_elems = Some [],
        card_brand = Some ''Trulieve'', pdp_body = None, pdp_brand = None,
        strain_found = None\<rparr>"

subsection \<open>Category results and sessions\<close>

text \<open>
  \<^verbatim>\<open>ScrapingResult\<close> and \<^verbatim>\<open>ScrapingSession\<close> of \<^verbatim>\<open>models.py\<close>. A \<^verbatim>\<open>datetime\<close> is a
  number of seconds, a dictionary the list of its items in insertion order. The capture
  time of \<^verbatim>\<open>ProductData\<close> and the other default timestamps are left out: nothing
  below reads them.
\<close>

record scraping_result =
  res_category :: string
  res_products :: "product_row list"
  res_store_count :: nat
  res_total_products :: nat
  res_success :: bool
  res_error_message :: "string option"
  res_duration_seconds :: "rat option"
  res_scraped_at :: rat

record scraping_session =
  session_id :: string
  results :: "(string \<times> scraping_result) list"
  ses_total_products :: nat
  total_stores :: nat
  ses_success :: bool
  start_time :: rat
  end_time :: "rat option"
  ses_duration_seconds :: "rat option"
  errors :: "string list"

text \<open>
  \<^verbatim>\<open>
  def add_result(self, category: str, result: ScrapingResult):
      self.results[category] = result
      self.total_products += result.total_products
      if not result.success:
          self.success = False
          if result.error_message:
              self.errors.append(f"{category}: {result.error_message}")
  \<close>
\<close>

definition add_result :: "scraping_session \<Rightarrow> string \<Rightarrow> scraping_result \<Rightarrow> scraping_session" where
  "add_result s cat r =
     (let s1 = s\<lparr>results := AList.update cat r (results s),
                 ses_total_products := ses_total_products s + res_total_products r\<rparr>
      in if \<not> res_success r
         then (let s2 = s1\<lparr>ses_success := False\<rparr>
               in if truthy_str (res_error_message r)
                  then s2\<lparr>errors := errors s2 @ [cat @ '': '' @ (case res_error_message r of
                                                                 None \<Rightarrow> [] | Some m \<Rightarrow> m)]\<rparr>
                  else s2)
         else s1)"

text \<open>
  \<^verbatim>\<open>
  def finalize(self):
      self.end_time = datetime.now()
      if self.start_time and self.end_time:
          self.duration_seconds = (self.end_time - self.start_time).total_seconds()
      all_stores = set()
      for result in self.results.values():
          for product in result.products:
              all_stores.add(product.store)
      self.total_stores = len(all_stores)
  \<close>
  The two loops are \<open>stores_of_products\<close> and \<open>stores_of_results\<close>; \<open>now\<close> is the clock's
  reading.
\<close>

fun stores_of_products :: "product_row list \<Rightarrow> string set \<Rightarrow> string set" where
  "stores_of_products [] all_stores = all_stores"
| "stores_of_products (p # ps) all_stores = stores_of_products ps (insert (store p) all_stores)"

fun stores_of_results :: "scraping_result list \<Rightarrow> string set \<Rightarrow> string set" where
  "stores_of_results [] all_stores = all_stores"
| "stores_of_results (r # rs) all_stores =
     stores_of_results rs (stores_of_products (res_products r) all_stores)"

definition finalize :: "scraping_session \<Rightarrow> rat \<Rightarrow> scraping_session" where
  "finalize s now =
     s\<lparr>end_time := Some now,
       ses_duration_seconds := Some (now - start_time s),
       total_stores := card (stores_of_results (map snd (results s)) {})\<rparr>"

subsection \<open>Scraping one category across the stores\<close>

text \<open>\<^verbatim>\<open>stores[:max_stores]\<close>, a negative bound counting from the end.\<close>

definition py_slice_to :: "int \<Rightarrow> 'a list \<Rightarrow> 'a list" where
  "py_slice_to n xs = (if 0 \<le> n then take (nat n) xs else take (length xs - nat (- n)) xs)"

text \<open>
  \<^verbatim>\<open>
  if max_stores:
      stores = stores[:max_stores]
  \<close>
\<close>

definition limit_stores :: "int option \<Rightarrow> 'a list \<Rightarrow> 'a list" where
  "limit_stores max_stores stores =
     (case max_stores of
        None \<Rightarrow> stores
      | Some n \<Rightarrow> if n \<noteq> 0 then py_slice_to n stores else stores)"

text \<open>
  The outside world of \<^verbatim>\<open>scrape_single_category\<close>: what \<^verbatim>\<open>extract_florida_stores_tool\<close>
  returns, and what \<^verbatim>\<open>scrape_store_category_tool\<close> returns for a store name and URL, each
  either the value or the text of the exception raised (\<open>Inl\<close>).
  \<^verbatim>\<open>
  for store_name, store_url in stores:
      try:
          products = await scrape_store_category_tool(
              ctx, store_name, store_url, category_url, category_name)
          all_products.extend(products)
          successful_stores += 1
      except Exception as e:
          logger.warning(f"Failed to scrape {store_name}: {e}")
          continue
  \<close>
\<close>

type_synonym store_scrape = "string \<Rightarrow> string \<Rightarrow> string + product_row list"

fun store_loop ::
  "store_scrape \<Rightarrow> (string \<times> string) list \<Rightarrow> product_row list \<times> nat \<Rightarrow> product_row list \<times> nat"
where
  "store_loop sc [] acc = acc"
| "store_loop sc ((store_name, store_url) # ss) (all_products, successful_stores) =
     (case sc store_name store_url of
        Inr products \<Rightarrow> store_loop sc ss (all_products @ products, successful_stores + 1)
      | Inl e \<Rightarrow> store_loop sc ss (all_products, successful_stores))"

text \<open>
  \<^verbatim>\<open>
  start_time = datetime.now()
  try:
      stores = await extract_florida_stores_tool(ctx)
      if max_stores:
          stores = stores[:max_stores]
      all_products = []
      successful_stores = 0
      for ...
      end_time = datetime.now()
      duration = (end_time - start_time).total_seconds()
      result = ScrapingResult(category=category_name, products=all_products,
          store_count=successful_stores, total_products=len(all_products),
          success=len(all_products) > 0, duration_seconds=duration, scraped_at=end_time)
      if not result.success:
          result.error_message = f"No products found for {category_name}"
      return result
  except Exception as e:
      return ScrapingResult(category=category_name, success=False,
          error_message=str(e), scraped_at=datetime.now())
  \<close>
\<close>

definition scrape_single_category ::
  "string \<Rightarrow> int option \<Rightarrow> string + (string \<times> string) list \<Rightarrow> store_scrape \<Rightarrow> rat \<Rightarrow> rat
     \<Rightarrow> scraping_result"
where
  "scrape_single_category category_name max_stores found sc t_start t_end =
     (case found of
        Inl e \<Rightarrow>
          \<lparr>res_category = category_name, res_products = [], res_store_count = 0,
           res_total_products = 0, res_success = False, res_error_message = Some e,
           res_duration_seconds = None, res_scraped_at = t_end\<rparr>
      | Inr stores \<Rightarrow>
          (case store_loop sc (limit_stores max_stores stores) ([], 0) of
             (all_products, successful_stores) \<Rightarrow>
               let result =
                     \<lparr>res_category = category_name, res_products = all_products,
                      res_store_count = successful_stores,
                      res_total_products = length all_products,
                      res_success = (0 < length all_products),
                      res_error_message = None,
                      res_duration_seconds = Some (t_end - t_start),
                      res_scraped_at = t_end\<rparr>
               in if \<not> res_success result
                  then result\<lparr>res_error_message :=
                                 Some (''No products found for '' @ category_name)\<rparr>
                  else result))"




text \<open>
  The mocked store scrape of the test suite (\<^verbatim>\<open>test_agent.py\<close>): a store whose name
  contains \<^verbatim>\<open>Failing\<close> raises, every other store returns one product.
  \<^verbatim>\<open>
  def mock_scrape_side_effect(ctx, store_name, store_url, category_url, subcategory):
      if "Failing" in store_name:
          raise Exception("Store temporarily unavailable")
      return [ProductData(state="FL", store=store_name, subcategory=subcategory,
                          name="Test Product", price=25.00, grams=3.5)]
  \<close>
\<close>

definition test_product :: "string \<Rightarrow> string \<Rightarrow> product_row" where
  "test_product store_name subcat =
     \<lparr>state = ''FL'', store = store_name, subcategory = subcat, name = ''Test Product'',
      brand = None, strain_type = None, thc_pct = None, size_raw = None,
      grams = Some (7 / 2), price = Some 25, price_per_g = None, url = None\<rparr>"

definition mock_scrape :: "string \<Rightarrow> store_scrape" where
  "mock_scrape subcat store_name store_url =
     (if sublist ''Failing'' store_name then Inl ''Store temporarily unavailable''
      else Inr [test_product store_name subcat])"

subsection \<open>Bulk loader\<close>

text \<open>
  \<^verbatim>\<open>DatabaseInsertResult\<close> of \<^verbatim>\<open>models.py\<close>, and \<^verbatim>\<open>SnowflakeClient\<close> of
  \<^verbatim>\<open>snowflake_client.py\<close>. The client's state is whether a connection is open, and the
  log of what was done with the data store so far: a use of the connection
  (\<^verbatim>\<open>get_connection\<close>), a call of \<^verbatim>\<open>write_pandas\<close> with the table and the number of rows,
  a rollback, a commit, and a sleep before a retry with its seconds.
\<close>

record insert_result =
  ins_table_name :: string
  ins_category :: string
  ins_success :: bool
  rows_inserted :: nat
  rows_failed :: nat
  ins_error_message :: "string option"
  ins_duration_seconds :: "rat option"

datatype db_event = GetConnection | WritePandas string nat | Rollback | Commit | Sleep nat

record db_client =
  connected :: bool
  db_log :: "db_event list"

text \<open>
  The data store answers a call of \<^verbatim>\<open>write_pandas\<close> with its success flag and row count,
  or raises: one of \<^verbatim>\<open>ProgrammingError\<close>, \<^verbatim>\<open>DatabaseError\<close>, \<^verbatim>\<open>InterfaceError\<close>, or
  another exception, each with its text. The answer may depend on what was done before.
  The event loop's clock is read as a function of the same history.
\<close>

datatype write_reply = Written bool nat | DbError string | OtherError string

record db_world =
  reply :: "db_event list \<Rightarrow> string \<Rightarrow> nat \<Rightarrow> write_reply"
  loop_time :: "db_event list \<Rightarrow> rat"

definition log_events :: "db_event list \<Rightarrow> db_client \<Rightarrow> db_client" where
  "log_events es st = st\<lparr>db_log := db_log st @ es\<rparr>"

text \<open>
  One pass of \<^verbatim>\<open>for attempt in range(3)\<close> of \<^verbatim>\<open>insert_products\<close>, and the passes after it:
  \<^verbatim>\<open>
  for attempt in range(3):
      try:
          with self.connection_context() as conn:
              df = pd.DataFrame([p.model_dump() for p in products])
              ...
              success, nchunks, nrows, _ = write_pandas(conn, df, table_name, ...)
              end_time = asyncio.get_event_loop().time()
              duration = end_time - start_time
              if success:
                  return DatabaseInsertResult(table_name=table_name, category=category,
                      success=True, rows_inserted=nrows, duration_seconds=duration)
              else:
                  raise Exception("write_pandas returned success=False")
      except (ProgrammingError, DatabaseError, InterfaceError) as e:
          if attempt == 2:
              end_time = asyncio.get_event_loop().time()
              return DatabaseInsertResult(table_name=table_name, category=category,
                  success=False, error_message=str(e), duration_seconds=end_time - start_time)
          await asyncio.sleep(2 ** attempt)
      except Exception as e:
          (the same)
  return DatabaseInsertResult(table_name=table_name, category=category, success=False,
      error_message="Exhausted all retry attempts")
  \<close>
  \<^verbatim>\<open>connection_context\<close> raises before its \<^verbatim>\<open>try\<close> when no connection is open; inside,
  an exception rolls back, and leaving always commits.
\<close>

definition failed_insert :: "string \<Rightarrow> string \<Rightarrow> string \<Rightarrow> rat option \<Rightarrow> insert_result" where
  "failed_insert table_name category msg duration =
     \<lparr>ins_table_name = table_name, ins_category = category, ins_success = False,
      rows_inserted = 0, rows_failed = 0, ins_error_message = Some msg,
      ins_duration_seconds = duration\<rparr>"

datatype attempt_outcome = Done insert_result | Failed string

definition insert_attempt ::
  "db_world \<Rightarrow> product_row list \<Rightarrow> string \<Rightarrow> string \<Rightarrow> rat \<Rightarrow> db_client
     \<Rightarrow> attempt_outcome \<times> db_client"
where
  "insert_attempt w products table_name category t_start st =
     (let st1 = log_events [GetConnection] st
      in if \<not> connected st then (Failed ''Connection not established. Call connect() first.'', st1)
         else
           let st2 = log_events [WritePandas table_name (length products)] st1
           in (case reply w (db_log st1) table_name (length products) of
                 Written ok nrows \<Rightarrow>
                   if ok
                   then (Done \<lparr>ins_table_name = table_name, ins_category = category,
                               ins_success = True, rows_inserted = nrows, rows_failed = 0,
                               ins_error_message = None,
                               ins_duration_seconds = Some (loop_time w (db_log st2) - t_start)\<rparr>,
                         log_events [Commit] st2)
                   else (Failed ''write_pandas returned success=False'',
                         log_events [Rollback, Commit] st2)
               | DbError msg \<Rightarrow> (Failed msg, log_events [Rollback, Commit] st2)
               | OtherError msg \<Rightarrow> (Failed msg, log_events [Rollback, Commit] st2)))"

fun insert_attempts ::
  "db_world \<Rightarrow> product_row list \<Rightarrow> string \<Rightarrow> string \<Rightarrow> rat \<Rightarrow> nat list \<Rightarrow> db_client
     \<Rightarrow> insert_result \<times> db_client"
where
  "insert_attempts w products table_name category t_start [] st =
     (failed_insert table_name category ''Exhausted all retry attempts'' None, st)"
| "insert_attempts w products table_name category t_start (attempt # rest) st =
     (case insert_attempt w products table_name category t_start st of
        (Done result, st') \<Rightarrow> (result, st')
      | (Failed msg, st') \<Rightarrow>
          if attempt = 2
          then (failed_insert table_name category msg
                  (Some (loop_time w (db_log st') - t_start)), st')
          else insert_attempts w products table_name category t_start rest
                 (log_events [Sleep (2 ^ attempt)] st'))"

text \<open>
  \<^verbatim>\<open>
  start_time = asyncio.get_event_loop().time()
  if not products:
      return DatabaseInsertResult(table_name=table_name, category="unknown",
          success=True, rows_inserted=0, duration_seconds=0)
  category = products[0].subcategory if products else "unknown"
  for attempt in range(3): ...
  \<close>
\<close>

definition insert_products ::
  "db_world \<Rightarrow> product_row list \<Rightarrow> string \<Rightarrow> db_client \<Rightarrow> insert_result \<times> db_client"
where
  "insert_products w products table_name st =
     (let t_start = loop_time w (db_log st)
      in case products of
           [] \<Rightarrow>
             (\<lparr>ins_table_name = table_name, ins_category = ''unknown'', ins_success = True,
               rows_inserted = 0, rows_failed = 0, ins_error_message = None,
               ins_duration_seconds = Some 0\<rparr>, st)
         | p # ps \<Rightarrow>
             insert_attempts w products table_name (subcategory p) t_start [0, 1, 2] st)"

text \<open>
  \<^verbatim>\<open>
  results = {}
  for category, products in products_by_category.items():
      if category in self.config.tables:
          table_name = self.config.tables[category]
          result = await self.insert_products(products, table_name)
          results[category] = result
      else:
          results[category] = DatabaseInsertResult(table_name="unknown", category=category,
              success=False, error_message=f"No table mapping for category: {category}")
  return results
  \<close>
  \<open>tables\<close> is \<^verbatim>\<open>config.tables\<close>, whose default is \<open>DEFAULT_TABLES\<close>.
\<close>

definition DEFAULT_TABLES :: "string \<Rightarrow> string option" where
  "DEFAULT_TABLES = map_of
     [(''Whole Flower'', ''TL_Scrape_WHOLE_FLOWER''),
      (''Pre-Rolls'', ''TL_Scrape_Pre_Rolls''),
      (''Ground & Shake'', ''TL_Scrape_Ground_Shake'')]"

definition no_mapping_result :: "string \<Rightarrow> insert_result" where
  "no_mapping_result category =
     failed_insert ''unknown'' category (''No table mapping for category: '' @ category) None"

fun by_category_loop ::
  "db_world \<Rightarrow> (string \<Rightarrow> string option) \<Rightarrow> (string \<times> product_row list) list
     \<Rightarrow> (string \<times> insert_result) list \<times> db_client
     \<Rightarrow> (string \<times> insert_result) list \<times> db_client"
where
  "by_category_loop w tables [] acc = acc"
| "by_category_loop w tables ((category, products) # rest) (res, st) =
     (case tables category of
        Some table_name \<Rightarrow>
          (case insert_products w products table_name st of
             (result, st') \<Rightarrow>
               by_category_loop w tables rest (AList.update category result res, st'))
      | None \<Rightarrow>
          by_category_loop w tables rest
            (AList.update category (no_mapping_result category) res, st))"

definition insert_products_by_category ::
  "db_world \<Rightarrow> (string \<Rightarrow> string option) \<Rightarrow> (string \<times> product_row list) list \<Rightarrow> db_client
     \<Rightarrow> (string \<times> insert_result) list \<times> db_client"
where
  "insert_products_by_category w tables products_by_category st =
     by_category_loop w tables products_by_category ([], st)"

text \<open>A data store that accepts every write, and a clock that counts the events.\<close>

definition accepting_world :: db_world where
  "accepting_world =
     \<lparr>reply = (\<lambda>history table_name n. Written True n),
      loop_time = (\<lambda>history. of_nat (length history))\<rparr>"

section \<open>Properties\<close>

subsection \<open>Splitting at the leftmost separator\<close>







subsection \<open>Product slug\<close>






subsection \<open>Price extraction\<close>

lemma price_at_shape:
  assumes "price_at s = Some (v, rest)"
  shows "\<exists>mid. s = CHR ''$'' # mid @ rest \<and> CHR ''$'' \<notin> set mid"
proof (cases s)
  case Nil
  with assms show ?thesis by (simp add: price_at_def)
next
  case (Cons c r)
  define sp where "sp = takeWhile is_space r"
  define r1 where "r1 = dropWhile is_space r"
  define ip where "ip = takeWhile is_digit r1"
  define r2 where "r2 = dropWhile is_digit r1"
  have r: "r = sp @ ip @ r2"
    by (simp add: sp_def r1_def ip_def r2_def)
  have nsp: "CHR ''$'' \<notin> set sp"
    unfolding sp_def by (auto dest!: set_takeWhileD simp: is_space_def)
  have nip: "CHR ''$'' \<notin> set ip"
    unfolding ip_def by (auto dest!: set_takeWhileD simp: is_digit_def)
  from assms Cons have c: "c = CHR ''$''"
    by (auto simp: price_at_def split: if_splits)
  from assms Cons consider (plain) "rest = r2"
    | (frac) a b where "r2 = CHR ''.'' # a # b # rest" "is_digit a" "is_digit b"
    by (auto simp: price_at_def Let_def r1_def [symmetric] r2_def [symmetric]
        split: list.splits if_splits)
  then show ?thesis
  proof cases
    case plain
    with r c Cons nsp nip show ?thesis
      by (intro exI [of _ "sp @ ip"]) simp
  next
    case frac
    then have "CHR ''$'' \<notin> set [CHR ''.'', a, b]"
      by (auto simp: is_digit_def)
    with frac r c Cons nsp nip show ?thesis
      by (intro exI [of _ "sp @ ip @ [CHR ''.'', a, b]"]) simp
  qed
qed

lemma price_at_needs_dollar: "c \<noteq> CHR ''$'' \<Longrightarrow> price_at (c # cs) = None"
  by (simp add: price_at_def)

lemma all_price_matches_skip:
  "CHR ''$'' \<notin> set mid \<Longrightarrow> all_price_matches (mid @ r) = all_price_matches r"
  by (induction mid) (auto simp: price_at_needs_dollar)

text \<open>A match holds no second dollar sign, so resuming after it loses no match.\<close>

lemma price_finditer_all: "price_finditer s = all_price_matches s"
proof (induction s rule: price_finditer.induct)
  case 1
  show ?case by simp
next
  case (2 c cs)
  show ?case
  proof (cases "price_at (c # cs)")
    case None
    with 2 show ?thesis by simp
  next
    case (Some m)
    obtain v rest where m: "m = (v, rest)" by (cases m)
    from price_at_shape [of "c # cs" v rest] Some m
    obtain mid where "cs = mid @ rest" "CHR ''$'' \<notin> set mid" by auto
    then have "all_price_matches cs = all_price_matches rest"
      by (simp add: all_price_matches_skip)
    with 2(2) [OF Some m [symmetric]] Some m show ?thesis by simp
  qed
qed

lemma set_all_price_matches:
  "set (all_price_matches s) = {v. \<exists>i r. i < length s \<and> price_at (drop i s) = Some (v, r)}"
proof (induction s)
  case Nil
  show ?case by simp
next
  case (Cons c cs)
  have split: "(\<exists>i r. i < length (c # cs) \<and> price_at (drop i (c # cs)) = Some (v, r))
      \<longleftrightarrow> (\<exists>r. price_at (c # cs) = Some (v, r))
          \<or> (\<exists>i r. i < length cs \<and> price_at (drop i cs) = Some (v, r))" for v
  proof
    assume "\<exists>i r. i < length (c # cs) \<and> price_at (drop i (c # cs)) = Some (v, r)"
    then obtain i r where ir: "i < length (c # cs)" "price_at (drop i (c # cs)) = Some (v, r)"
      by blast
    show "(\<exists>r. price_at (c # cs) = Some (v, r))
          \<or> (\<exists>i r. i < length cs \<and> price_at (drop i cs) = Some (v, r))"
    proof (cases i)
      case 0
      with ir show ?thesis by auto
    next
      case (Suc j)
      with ir show ?thesis by auto
    qed
  next
    assume "(\<exists>r. price_at (c # cs) = Some (v, r))
          \<or> (\<exists>i r. i < length cs \<and> price_at (drop i cs) = Some (v, r))"
    then show "\<exists>i r. i < length (c # cs) \<and> price_at (drop i (c # cs)) = Some (v, r)"
    proof
      assume "\<exists>r. price_at (c # cs) = Some (v, r)"
      then obtain r where "price_at (drop 0 (c # cs)) = Some (v, r)" by auto
      then show ?thesis by (intro exI [of _ 0] exI [of _ r]) simp
    next
      assume "\<exists>i r. i < length cs \<and> price_at (drop i cs) = Some (v, r)"
      then obtain i r where "i < length cs" "price_at (drop i cs) = Some (v, r)" by blast
      then show ?thesis by (intro exI [of _ "Suc i"] exI [of _ r]) simp
    qed
  qed
  show ?case
  proof (cases "price_at (c # cs)")
    case None
    with Cons split show ?thesis by auto
  next
    case (Some m)
    with Cons split show ?thesis by (cases m) auto
  qed
qed

lemma py_min_least: "vals \<noteq> [] \<Longrightarrow> py_min vals \<in> set vals \<and> (\<forall>w \<in> set vals. py_min vals \<le> w)"
  by (induction vals rule: py_min.induct) (auto simp: min_def)

text \<open>
  C3, as the code has it. The pattern lets whitespace stand between the dollar sign and
  the digits. The extracted price is absent exactly when the pattern matches at no
  position of the text; otherwise it is the value of one of the matches and no match
  has a smaller value.
\<close>

theorem price_from_blob_minimum:
  "(price_from_blob blob = None \<longleftrightarrow> (\<forall>i < length blob. price_at (drop i blob) = None))
   \<and> (\<forall>v. price_from_blob blob = Some v \<longrightarrow>
          (\<exists>i r. i < length blob \<and> price_at (drop i blob) = Some (v, r))
          \<and> (\<forall>i w r. i < length blob \<and> price_at (drop i blob) = Some (w, r) \<longrightarrow> v \<le> w))"
proof -
  define M where "M = {v. \<exists>i r. i < length blob \<and> price_at (drop i blob) = Some (v, r)}"
  have set_eq: "set (price_finditer blob) = M"
    by (simp add: price_finditer_all set_all_price_matches M_def)
  have none: "price_from_blob blob = None \<longleftrightarrow> M = {}"
    using set_eq by (auto simp: price_from_blob_def Let_def)
  have "M = {} \<longleftrightarrow> (\<forall>i < length blob. price_at (drop i blob) = None)"
    unfolding M_def by (auto simp: not_Some_eq [symmetric] simp del: not_Some_eq not_None_eq)
  with none have first: "price_from_blob blob = None
      \<longleftrightarrow> (\<forall>i < length blob. price_at (drop i blob) = None)"
    by simp
  have second: "v \<in> M \<and> (\<forall>w \<in> M. v \<le> w)" if "price_from_blob blob = Some v" for v
  proof -
    from that have ne: "price_finditer blob \<noteq> []" and v: "v = py_min (price_finditer blob)"
      by (auto simp: price_from_blob_def Let_def split: if_splits)
    from py_min_least [OF ne] v set_eq show ?thesis by simp
  qed
  from first second show ?thesis
    unfolding M_def by blast
qed

theorem price_from_blob_minimum_witness:
  "price_from_blob ''Was $45.00 now $ 35.00'' = Some 35
   \<and> (\<exists>i r. i < length ''Was $45.00 now $ 35.00''
          \<and> price_at (drop i ''Was $45.00 now $ 35.00'') = Some (35, r))
   \<and> price_from_blob ''No price here'' = None"
proof -
  have a: "price_from_blob ''Was $45.00 now $ 35.00'' = Some 35"
    by (simp add: price_from_blob_def price_at_def is_digit_def is_space_def
        decimal_val_def digits_val_def digit_val_def)
  have b: "price_from_blob ''No price here'' = None"
    by (simp add: price_from_blob_def price_at_def)
  from price_from_blob_minimum [of "''Was $45.00 now $ 35.00''"] a
  have "\<exists>i r. i < length ''Was $45.00 now $ 35.00''
          \<and> price_at (drop i ''Was $45.00 now $ 35.00'') = Some (35, r)"
    by blast
  with a b show ?thesis by blast
qed

text \<open>
  C3, as the specification words it, fails: a text with no dollar sign directly followed
  by a digit can still yield a price.
\<close>

theorem price_spaced_counterexample:
  "\<not> spec_dollar_digits ''$ 5'' \<and> price_from_blob ''$ 5'' = Some 5"
  by (simp add: price_from_blob_def price_at_def is_digit_def is_space_def
      decimal_val_def digits_val_def digit_val_def)

subsection \<open>Size tokens and grams\<close>

lemma ci_literal_lower:
  "ci_literal t s = Some (m, rest) \<Longrightarrow> py_lower m = t \<and> s = m @ rest"
  by (induction t s arbitrary: m rest rule: ci_literal.induct)
     (auto simp: py_lower_def split: if_splits option.splits)

lemma size_alt_token: "size_alt ts s = Some m \<Longrightarrow> py_lower m \<in> set ts"
  by (induction ts) (auto split: option.splits if_splits dest: ci_literal_lower)

lemma re_search_found:
  "re_search match_at prev s = Some g \<Longrightarrow> \<exists>p t. match_at p t = Some g"
  by (induction s arbitrary: prev) (auto split: option.splits)

lemma SIZE_RE_search_token:
  assumes "SIZE_RE_search text = Some m"
  shows "py_lower m \<in> set SIZE_TOKENS"
proof -
  from assms obtain p t where "size_at p t = Some m"
    unfolding SIZE_RE_search_def by (blast dest: re_search_found)
  then have "size_alt SIZE_TOKENS t = Some m"
    by (simp add: size_at_def split: if_splits)
  then show ?thesis by (rule size_alt_token)
qed

lemma size_tokens_lower: "\<forall>tok \<in> set SIZE_TOKENS. py_lower tok = tok"
  by (simp add: SIZE_TOKENS_def py_lower_def py_lower_char_def)

lemma size_tokens_mapped: "\<forall>tok \<in> set SIZE_TOKENS. SIZE_MAP tok \<noteq> None"
  by (simp add: SIZE_TOKENS_def SIZE_MAP_def del: not_None_eq)

lemma size_map_positive: "SIZE_MAP tok = Some g \<Longrightarrow> 0 < g"
  by (auto simp: SIZE_MAP_def split: if_splits)

lemma size_token_grams:
  assumes "tok \<in> set SIZE_TOKENS"
  shows "py_lower tok = tok \<and> (\<exists>g. SIZE_MAP tok = Some g \<and> 0 < g)"
proof -
  from assms size_tokens_mapped obtain g where g: "SIZE_MAP tok = Some g" by blast
  from assms size_tokens_lower have "py_lower tok = tok" by blast
  with g size_map_positive [OF g] show ?thesis by blast
qed

lemma grams_from_size_None: "grams_from_size None = None"
  by (simp add: grams_from_size_def SIZE_MAP_def py_lower_def)

lemma grams_from_size_token:
  "tok \<in> set SIZE_TOKENS \<Longrightarrow> grams_from_size (Some tok) = SIZE_MAP tok"
  using size_token_grams [of tok] by (simp add: grams_from_size_def)

subsection \<open>Rows of a scrape pass\<close>

lemma scrape_loop_rows:
  "r \<in> set (scrape_loop st sub links seen) \<Longrightarrow>
     \<exists>l k. l \<in> set links \<and> assemble st sub l = Some (k, r)"
proof (induction links arbitrary: seen)
  case Nil
  then show ?case by simp
next
  case (Cons a links)
  show ?case
  proof (cases "assemble st sub a")
    case None
    with Cons.prems have "r \<in> set (scrape_loop st sub links seen)" by simp
    from Cons.IH [OF this] obtain l k where "l \<in> set links" "assemble st sub l = Some (k, r)"
      by blast
    then have "l \<in> set (a # links) \<and> assemble st sub l = Some (k, r)" by simp
    then show ?thesis by blast
  next
    case (Some m)
    obtain k row where m: "m = (k, row)" by (cases m)
    from Cons.prems Some m consider (here) "r = row"
      | (later) seen' where "r \<in> set (scrape_loop st sub links seen')"
      by (cases "k \<in> seen") auto
    then show ?thesis
    proof cases
      case here
      with Some m have "a \<in> set (a # links) \<and> assemble st sub a = Some (k, r)" by simp
      then show ?thesis by blast
    next
      case later
      from Cons.IH [OF this] obtain l k' where "l \<in> set links"
        "assemble st sub l = Some (k', r)" by blast
      then have "l \<in> set (a # links) \<and> assemble st sub l = Some (k', r)" by simp
      then show ?thesis by blast
    qed
  qed
qed

lemma assemble_size_grams:
  assumes "assemble st sub l = Some (k, r)"
  shows "(size_raw r = None \<and> grams r = None)
         \<or> (\<exists>tok. tok \<in> set SIZE_TOKENS \<and> size_raw r = Some tok \<and> grams r = SIZE_MAP tok)"
proof -
  from assms obtain ob nm where l: "l = LinkObserved ob"
    and nm: "nm = py_strip_ws (case link_text ob of None \<Rightarrow> [] | Some t \<Rightarrow> t)"
    by (cases l) (auto simp: assemble_def)
  define card_text where "card_text = (if card_count ob \<noteq> 0 then card_inner ob else nm)"
  define size where "size = (case SIZE_RE_search card_text of
                               Some g \<Rightarrow> Some (py_lower g)
                             | None \<Rightarrow> None)"
  from assms l nm have r: "size_raw r = size" "grams r = grams_from_size size"
    by (auto simp: assemble_def Let_def size_def card_text_def split: if_splits)
  show ?thesis
  proof (cases "SIZE_RE_search card_text")
    case None
    with r show ?thesis by (simp add: size_def grams_from_size_None)
  next
    case (Some g)
    then have "py_lower g \<in> set SIZE_TOKENS" by (rule SIZE_RE_search_token)
    with r Some show ?thesis by (simp add: size_def grams_from_size_token)
  qed
qed

text \<open>
  C10. In every row of a scrape pass either the size and the grams are both absent, or
  the size is one of the eight canonical tokens, in lower case, and the grams are the
  table's value for it, which is positive.
\<close>

theorem scrape_category_size_grams:
  "\<forall>r \<in> set (scrape_category st sub links).
     (size_raw r = None \<and> grams r = None)
     \<or> (\<exists>tok g. tok \<in> set SIZE_TOKENS \<and> py_lower tok = tok \<and> size_raw r = Some tok
           \<and> SIZE_MAP tok = Some g \<and> grams r = Some g \<and> 0 < g)"
proof
  fix r
  assume "r \<in> set (scrape_category st sub links)"
  then obtain l k where "assemble st sub l = Some (k, r)"
    unfolding scrape_category_def by (blast dest: scrape_loop_rows)
  from assemble_size_grams [OF this]
  show "(size_raw r = None \<and> grams r = None)
     \<or> (\<exists>tok g. tok \<in> set SIZE_TOKENS \<and> py_lower tok = tok \<and> size_raw r = Some tok
           \<and> SIZE_MAP tok = Some g \<and> grams r = Some g \<and> 0 < g)"
  proof
    assume "size_raw r = None \<and> grams r = None"
    then show ?thesis by simp
  next
    assume "\<exists>tok. tok \<in> set SIZE_TOKENS \<and> size_raw r = Some tok \<and> grams r = SIZE_MAP tok"
    then obtain tok where tok: "tok \<in> set SIZE_TOKENS" "size_raw r = Some tok"
      "grams r = SIZE_MAP tok" by blast
    from size_token_grams [OF tok(1)] obtain g where "py_lower tok = tok"
      "SIZE_MAP tok = Some g" "0 < g" by blast
    with tok show ?thesis by auto
  qed
qed

theorem scrape_category_size_grams_witness:
  "size_raw (hd (scrape_category ''Miami, FL'' ''Whole Flower''
       [card_link ''Blue Dream'' ''/product/blue-dream'' ''Blue Dream 3.5G $35.00''])) = Some ''3.5g''
   \<and> (\<exists>tok g. tok \<in> set SIZE_TOKENS
         \<and> size_raw (hd (scrape_category ''Miami, FL'' ''Whole Flower''
              [card_link ''Blue Dream'' ''/product/blue-dream'' ''Blue Dream 3.5G $35.00''])) = Some tok
         \<and> grams (hd (scrape_category ''Miami, FL'' ''Whole Flower''
              [card_link ''Blue Dream'' ''/product/blue-dream'' ''Blue Dream 3.5G $35.00''])) = Some g
         \<and> 0 < g)"
proof -
  define rows where "rows = scrape_category ''Miami, FL'' ''Whole Flower''
       [card_link ''Blue Dream'' ''/product/blue-dream'' ''Blue Dream 3.5G $35.00'']"
  have sizes: "map size_raw rows = [Some ''3.5g'']"
    unfolding rows_def by code_simp
  then have ne: "rows \<noteq> []" by auto
  with sizes have s: "size_raw (hd rows) = Some ''3.5g''"
    by (cases rows) auto
  from ne have "hd rows \<in> set rows" by simp
  with scrape_category_size_grams [of "''Miami, FL''" "''Whole Flower''"
      "[card_link ''Blue Dream'' ''/product/blue-dream'' ''Blue Dream 3.5G $35.00'']"]
  have "(size_raw (hd rows) = None \<and> grams (hd rows) = None)
     \<or> (\<exists>tok g. tok \<in> set SIZE_TOKENS \<and> py_lower tok = tok \<and> size_raw (hd rows) = Some tok
           \<and> SIZE_MAP tok = Some g \<and> grams (hd rows) = Some g \<and> 0 < g)"
    unfolding rows_def by blast
  with s have "\<exists>tok g. tok \<in> set SIZE_TOKENS \<and> size_raw (hd rows) = Some tok
      \<and> grams (hd rows) = Some g \<and> 0 < g"
    by auto
  with s show ?thesis unfolding rows_def by blast
qed

subsection \<open>Price per gram\<close>

lemma price_per_gram_present:
  "price_per_gram pr gr \<noteq> None \<longleftrightarrow> (\<exists>p g. pr = Some p \<and> gr = Some g \<and> p \<noteq> 0 \<and> g \<noteq> 0)"
  by (auto simp: price_per_gram_def truthy_num_def split: option.splits)

text \<open>
  C1 fails on a listing priced at zero. The card text \<^verbatim>\<open>Sample 3.5g $0.00\<close> gives a row
  whose price is present (0.0) and whose grams are present (3.5), and whose price per gram
  is absent: \<^verbatim>\<open>price and grams\<close> tests the price for truth, and 0.0 is false. The
  validators of \<^verbatim>\<open>ProductData\<close> keep the three fields as they are.
\<close>

theorem zero_price_has_no_price_per_g:
  "map price (scrape_category ''Miami, FL'' ''Whole Flower''
       [card_link ''Sample'' ''/product/sample'' ''Sample 3.5g $0.00'']) = [Some 0]
   \<and> map grams (scrape_category ''Miami, FL'' ''Whole Flower''
       [card_link ''Sample'' ''/product/sample'' ''Sample 3.5g $0.00'']) = [Some (7 / 2)]
   \<and> map price_per_g (scrape_category ''Miami, FL'' ''Whole Flower''
       [card_link ''Sample'' ''/product/sample'' ''Sample 3.5g $0.00'']) = [None]
   \<and> map (map_sum id price) (map ProductData (scrape_category ''Miami, FL'' ''Whole Flower''
       [card_link ''Sample'' ''/product/sample'' ''Sample 3.5g $0.00''])) = [Inr (Some 0)]
   \<and> map (map_sum id grams) (map ProductData (scrape_category ''Miami, FL'' ''Whole Flower''
       [card_link ''Sample'' ''/product/sample'' ''Sample 3.5g $0.00''])) = [Inr (Some (7 / 2))]
   \<and> map (map_sum id price_per_g) (map ProductData (scrape_category ''Miami, FL'' ''Whole Flower''
       [card_link ''Sample'' ''/product/sample'' ''Sample 3.5g $0.00''])) = [Inr None]"
proof (intro conjI)
  show "map price (scrape_category ''Miami, FL'' ''Whole Flower''
       [card_link ''Sample'' ''/product/sample'' ''Sample 3.5g $0.00'']) = [Some 0]"
    by code_simp
  show "map grams (scrape_category ''Miami, FL'' ''Whole Flower''
       [card_link ''Sample'' ''/product/sample'' ''Sample 3.5g $0.00'']) = [Some (7 / 2)]"
    by code_simp
  show "map price_per_g (scrape_category ''Miami, FL'' ''Whole Flower''
       [card_link ''Sample'' ''/product/sample'' ''Sample 3.5g $0.00'']) = [None]"
    by code_simp
  show "map (map_sum id price) (map ProductData (scrape_category ''Miami, FL'' ''Whole Flower''
       [card_link ''Sample'' ''/product/sample'' ''Sample 3.5g $0.00''])) = [Inr (Some 0)]"
    by code_simp
  show "map (map_sum id grams) (map ProductData (scrape_category ''Miami, FL'' ''Whole Flower''
       [card_link ''Sample'' ''/product/sample'' ''Sample 3.5g $0.00''])) = [Inr (Some (7 / 2))]"
    by code_simp
  show "map (map_sum id price_per_g) (map ProductData (scrape_category ''Miami, FL'' ''Whole Flower''
       [card_link ''Sample'' ''/product/sample'' ''Sample 3.5g $0.00''])) = [Inr None]"
    by code_simp
qed

subsection \<open>Deduplication\<close>

lemma all_less_Suc_split: "(\<forall>i < Suc j. P i) \<longleftrightarrow> P 0 \<and> (\<forall>i < j. P (Suc i))"
  by (auto simp: less_Suc_eq_0_disj)

lemma scrape_loop_nths:
  "scrape_loop st sub links seen =
     map snd (nths (List.map_filter (assemble st sub) links)
       {j. fst (List.map_filter (assemble st sub) links ! j) \<notin> seen
           \<and> (\<forall>i < j. fst (List.map_filter (assemble st sub) links ! i)
                      \<noteq> fst (List.map_filter (assemble st sub) links ! j))})"
proof (induction links arbitrary: seen)
  case Nil
  show ?case by (simp add: map_filter_simps)
next
  case (Cons l ls)
  define cs where "cs = List.map_filter (assemble st sub) ls"
  show ?case
  proof (cases "assemble st sub l")
    case None
    with Cons [of seen] show ?thesis by (simp add: map_filter_simps)
  next
    case (Some m)
    obtain k r where m: "m = (k, r)" by (cases m)
    have mf: "List.map_filter (assemble st sub) (l # ls) = (k, r) # cs"
      using Some m by (simp add: map_filter_simps cs_def)
    define A where "A = {j. fst (((k, r) # cs) ! j) \<notin> seen
           \<and> (\<forall>i < j. fst (((k, r) # cs) ! i) \<noteq> fst (((k, r) # cs) ! j))}"
    have tail: "{j. Suc j \<in> A} =
        {j. fst (cs ! j) \<notin> seen \<and> k \<noteq> fst (cs ! j) \<and> (\<forall>i < j. fst (cs ! i) \<noteq> fst (cs ! j))}"
      unfolding A_def by (simp add: all_less_Suc_split)
    have zero: "0 \<in> A \<longleftrightarrow> k \<notin> seen"
      unfolding A_def by simp
    show ?thesis
    proof (cases "k \<in> seen")
      case True
      then have "{j. Suc j \<in> A} =
          {j. fst (cs ! j) \<notin> seen \<and> (\<forall>i < j. fst (cs ! i) \<noteq> fst (cs ! j))}"
        unfolding tail by auto
      with True zero Cons [of seen] Some m show ?thesis
        unfolding mf A_def [symmetric] by (simp add: nths_Cons cs_def)
    next
      case False
      then have "{j. Suc j \<in> A} =
          {j. fst (cs ! j) \<notin> insert k seen \<and> (\<forall>i < j. fst (cs ! i) \<noteq> fst (cs ! j))}"
        unfolding tail by auto
      with False zero Cons [of "insert k seen"] Some m show ?thesis
        unfolding mf A_def [symmetric] by (simp add: nths_Cons cs_def)
    qed
  qed
qed

text \<open>
  C2. Let the candidates be the links of the page that reach the key lookup, each with
  its key and its row, in page order. The scrape emits the rows of exactly those
  candidates before which no candidate has the same key: of equal keys the first one
  only, whatever the other fields hold, and a candidate is never dropped on account of
  a candidate with a different key. On a page of two candidates: one row when the keys
  are equal, both rows when they differ.
\<close>

theorem scrape_category_first_of_each_key:
  "scrape_category st sub links =
     map snd (nths (List.map_filter (assemble st sub) links)
       {j. \<forall>i < j. fst (List.map_filter (assemble st sub) links ! i)
                    \<noteq> fst (List.map_filter (assemble st sub) links ! j)})
   \<and> (\<forall>ka ra kb rb.
         assemble st sub a = Some (ka, ra) \<and> assemble st sub b = Some (kb, rb) \<longrightarrow>
         scrape_category st sub [a, b] = (if ka = kb then [ra] else [ra, rb]))"
proof (intro conjI allI impI)
  show "scrape_category st sub links =
     map snd (nths (List.map_filter (assemble st sub) links)
       {j. \<forall>i < j. fst (List.map_filter (assemble st sub) links ! i)
                    \<noteq> fst (List.map_filter (assemble st sub) links ! j)})"
    unfolding scrape_category_def scrape_loop_nths [of st sub links "{}"] by simp
next
  fix ka ra kb rb
  assume "assemble st sub a = Some (ka, ra) \<and> assemble st sub b = Some (kb, rb)"
  then show "scrape_category st sub [a, b] = (if ka = kb then [ra] else [ra, rb])"
    by (simp add: scrape_category_def)
qed

theorem scrape_category_first_of_each_key_witness:
  "map_option fst (assemble ''Miami, FL'' ''Whole Flower''
       (card_link ''Blue Dream'' ''/product/blue-dream'' ''Blue Dream 3.5g $35.00''))
     = Some (''Miami, FL'', ''blue-dream'', Some ''3.5g'', ''Whole Flower'')
   \<and> map_option fst (assemble ''Miami, FL'' ''Whole Flower''
       (card_link ''Blue Dream'' ''/product/blue-dream?ref=2'' ''Blue Dream 3.5G $31.00''))
     = Some (''Miami, FL'', ''blue-dream'', Some ''3.5g'', ''Whole Flower'')
   \<and> map_option (\<lambda>c. price (snd c)) (assemble ''Miami, FL'' ''Whole Flower''
       (card_link ''Blue Dream'' ''/product/blue-dream?ref=2'' ''Blue Dream 3.5G $31.00''))
     = Some (Some 31)
   \<and> map price (scrape_category ''Miami, FL'' ''Whole Flower''
       [card_link ''Blue Dream'' ''/product/blue-dream'' ''Blue Dream 3.5g $35.00'',
        card_link ''Blue Dream'' ''/product/blue-dream?ref=2'' ''Blue Dream 3.5G $31.00''])
     = [Some 35]"
proof -
  define a where "a = card_link ''Blue Dream'' ''/product/blue-dream'' ''Blue Dream 3.5g $35.00''"
  define b where
    "b = card_link ''Blue Dream'' ''/product/blue-dream?ref=2'' ''Blue Dream 3.5G $31.00''"
  define k :: dedup_key where "k = (''Miami, FL'', ''blue-dream'', Some ''3.5g'', ''Whole Flower'')"
  have ka: "map_option fst (assemble ''Miami, FL'' ''Whole Flower'' a) = Some k"
    unfolding a_def k_def by code_simp
  have kb: "map_option fst (assemble ''Miami, FL'' ''Whole Flower'' b) = Some k"
    unfolding b_def k_def by code_simp
  have pa: "map_option (\<lambda>c. price (snd c)) (assemble ''Miami, FL'' ''Whole Flower'' a)
      = Some (Some 35)"
    unfolding a_def by code_simp
  have pb: "map_option (\<lambda>c. price (snd c)) (assemble ''Miami, FL'' ''Whole Flower'' b)
      = Some (Some 31)"
    unfolding b_def by code_simp
  from ka pa obtain ra where ra: "assemble ''Miami, FL'' ''Whole Flower'' a = Some (k, ra)"
    "price ra = Some 35"
    by (cases "assemble ''Miami, FL'' ''Whole Flower'' a") auto
  from kb obtain rb where rb: "assemble ''Miami, FL'' ''Whole Flower'' b = Some (k, rb)"
    by (cases "assemble ''Miami, FL'' ''Whole Flower'' b") auto
  from scrape_category_first_of_each_key
      [of "''Miami, FL''" "''Whole Flower''" "[]" a b, THEN conjunct2, rule_format,
       of k ra k rb, OF conjI [OF ra(1) rb]]
  have "scrape_category ''Miami, FL'' ''Whole Flower'' [a, b] = [ra]"
    by simp
  with ra(2) have "map price (scrape_category ''Miami, FL'' ''Whole Flower'' [a, b]) = [Some 35]"
    by simp
  with ka kb pb show ?thesis
    unfolding a_def b_def k_def by blast
qed

subsection \<open>THC percentage\<close>

lemma thc_range_at_single:
  "thc_range_at p s = Some (lo, hi) \<Longrightarrow> thc_single_at p s = Some lo"
  by (auto simp: thc_range_at_def thc_single_at_def split: option.splits if_splits)

lemma thc_range_at_single_ex:
  "thc_range_at p s = Some m \<Longrightarrow> \<exists>v. thc_single_at p s = Some v"
  using thc_range_at_single [of p s "fst m" "snd m"] by simp

lemma re_search_range_single:
  "re_search thc_range_at p s = Some m \<Longrightarrow> \<exists>v. re_search thc_single_at p s = Some v"
proof (induction s arbitrary: p)
  case Nil
  then show ?case using thc_range_at_single_ex [of p "[]" m] by simp
next
  case (Cons c cs)
  show ?case
  proof (cases "thc_range_at p (c # cs)")
    case None
    with Cons.prems have "re_search thc_range_at (Some c) cs = Some m" by simp
    from Cons.IH [OF this] show ?thesis
      by (cases "thc_single_at p (c # cs)") auto
  next
    case (Some y)
    from thc_range_at_single_ex [OF Some] show ?thesis by auto
  qed
qed

lemma thc_range_search_single:
  assumes "THC_RANGE_RE_search t = Some m"
  shows "THC_SINGLE_RE_search t \<noteq> None"
  using assms re_search_range_single [of None t m]
  by (auto simp: THC_RANGE_RE_search_def THC_SINGLE_RE_search_def)

text \<open>
  C4, as the code has it. Where the range pattern matches the text, the single-value
  pattern matches it too, and the extracted value is the first bound of the range match
  as the text writes it, group 1, whether or not it is the smaller of the two. Where the
  range pattern does not match, the value is that of the single-value match, and absent
  when that pattern does not match either. The text \<^verbatim>\<open>THC 18%-22%\<close> gives 18.
\<close>

theorem extract_thc_range_first:
  "(\<forall>lo hi. THC_RANGE_RE_search t = Some (lo, hi) \<longrightarrow>
       THC_SINGLE_RE_search t \<noteq> None \<and> extract_thc t = Some lo)
   \<and> (\<forall>v. THC_RANGE_RE_search t = None \<and> THC_SINGLE_RE_search t = Some v \<longrightarrow>
       extract_thc t = Some v)
   \<and> (THC_RANGE_RE_search t = None \<and> THC_SINGLE_RE_search t = None \<longrightarrow>
       extract_thc t = None)
   \<and> extract_thc ''THC 18%-22%'' = Some 18"
proof (intro conjI allI impI)
  fix lo hi
  assume r: "THC_RANGE_RE_search t = Some (lo, hi)"
  then show "THC_SINGLE_RE_search t \<noteq> None" by (rule thc_range_search_single)
  from r show "extract_thc t = Some lo" by (simp add: extract_thc_def)
next
  fix v
  assume "THC_RANGE_RE_search t = None \<and> THC_SINGLE_RE_search t = Some v"
  then show "extract_thc t = Some v" by (simp add: extract_thc_def)
next
  assume "THC_RANGE_RE_search t = None \<and> THC_SINGLE_RE_search t = None"
  then show "extract_thc t = None" by (simp add: extract_thc_def)
next
  show "extract_thc ''THC 18%-22%'' = Some 18" by code_simp
qed

theorem extract_thc_range_first_witness:
  "THC_RANGE_RE_search ''THC 10% 5 THC 18%-22%'' = Some (18, 22)
   \<and> THC_SINGLE_RE_search ''THC 10% 5 THC 18%-22%'' = Some 10
   \<and> extract_thc ''THC 10% 5 THC 18%-22%'' = Some 18
   \<and> THC_RANGE_RE_search ''THC: 22.5%'' = None
   \<and> THC_SINGLE_RE_search ''THC: 22.5%'' = Some (45 / 2)
   \<and> extract_thc ''THC: 22.5%'' = Some (45 / 2)
   \<and> THC_RANGE_RE_search ''No THC listed'' = None
   \<and> THC_SINGLE_RE_search ''No THC listed'' = None
   \<and> extract_thc ''No THC listed'' = None"
proof -
  have r1: "THC_RANGE_RE_search ''THC 10% 5 THC 18%-22%'' = Some (18, 22)" by code_simp
  have s1: "THC_SINGLE_RE_search ''THC 10% 5 THC 18%-22%'' = Some 10" by code_simp
  have r2: "THC_RANGE_RE_search ''THC: 22.5%'' = None" by code_simp
  have s2: "THC_SINGLE_RE_search ''THC: 22.5%'' = Some (45 / 2)" by code_simp
  have r3: "THC_RANGE_RE_search ''No THC listed'' = None" by code_simp
  have s3: "THC_SINGLE_RE_search ''No THC listed'' = None" by code_simp
  from extract_thc_range_first [of "''THC 10% 5 THC 18%-22%''"] r1
  have e1: "extract_thc ''THC 10% 5 THC 18%-22%'' = Some 18" by blast
  from extract_thc_range_first [of "''THC: 22.5%''"] r2 s2
  have e2: "extract_thc ''THC: 22.5%'' = Some (45 / 2)" by blast
  from extract_thc_range_first [of "''No THC listed''"] r3 s3
  have e3: "extract_thc ''No THC listed'' = None" by blast
  from r1 s1 e1 r2 s2 e2 r3 s3 e3 show ?thesis by blast
qed

text \<open>
  C4, as the specification words it, fails where a range is written with its larger
  bound first: the code compares nothing and returns the first bound, which is not the
  lower one.
\<close>

theorem thc_descending_range_counterexample:
  "THC_RANGE_RE_search ''THC 22%-18%'' = Some (22, 18)
   \<and> extract_thc ''THC 22%-18%'' = Some 22
   \<and> spec_lower_bound (22, 18) = 18"
proof -
  have r: "THC_RANGE_RE_search ''THC 22%-18%'' = Some (22, 18)" by code_simp
  have e: "extract_thc ''THC 22%-18%'' = Some 22" by code_simp
  have l: "spec_lower_bound (22, 18) = 18" by (simp add: spec_lower_bound_def)
  from r e l show ?thesis by blast
qed

subsection \<open>One category across the stores\<close>









subsection \<open>Session totals\<close>

lemma stores_of_products_set: "stores_of_products ps A = A \<union> store ` set ps"
  by (induction ps arbitrary: A) auto

lemma stores_of_results_set:
  "stores_of_results rs A = A \<union> (\<Union>r \<in> set rs. store ` set (res_products r))"
  by (induction rs arbitrary: A) (auto simp: stores_of_products_set)

text \<open>
  C6. After finalization the session's store total is the number of distinct store
  names over the products of all its category results.
\<close>

theorem finalize_total_stores:
  "total_stores (finalize s now) =
     card (\<Union>r \<in> snd ` set (results s). store ` set (res_products r))"
  by (simp add: finalize_def stores_of_results_set)

lemma result_stores_concat:
  "(\<Union>r \<in> snd ` set rs. store ` set (res_products r)) =
     set (concat (map (\<lambda>cr. map store (res_products (snd cr))) rs))"
  by (induction rs) auto

theorem finalize_total_stores_witness:
  "total_stores (finalize
      (add_result
        (add_result
          \<lparr>session_id = ''run-1'', results = [], ses_total_products = 0, total_stores = 0,
           ses_success = True, start_time = 0, end_time = None,
           ses_duration_seconds = None, errors = []\<rparr>
          ''Whole Flower''
          (scrape_single_category ''Whole Flower'' None
            (Inr [(''Miami, FL'', ''https://test.com/miami'')]) (mock_scrape ''Whole Flower'') 0 1))
        ''Pre-Rolls''
        (scrape_single_category ''Pre-Rolls'' None
          (Inr [(''Miami, FL'', ''https://test.com/miami'')]) (mock_scrape ''Pre-Rolls'') 1 2))
      3) = 1
   \<and> sum_list (map (\<lambda>cr. res_store_count (snd cr)) (results
      (add_result
        (add_result
          \<lparr>session_id = ''run-1'', results = [], ses_total_products = 0, total_stores = 0,
           ses_success = True, start_time = 0, end_time = None,
           ses_duration_seconds = None, errors = []\<rparr>
          ''Whole Flower''
          (scrape_single_category ''Whole Flower'' None
            (Inr [(''Miami, FL'', ''https://test.com/miami'')]) (mock_scrape ''Whole Flower'') 0 1))
        ''Pre-Rolls''
        (scrape_single_category ''Pre-Rolls'' None
          (Inr [(''Miami, FL'', ''https://test.com/miami'')]) (mock_scrape ''Pre-Rolls'') 1 2)))) = 2"
proof -
  define S where "S =
      add_result
        (add_result
          \<lparr>session_id = ''run-1'', results = [], ses_total_products = 0, total_stores = 0,
           ses_success = True, start_time = 0, end_time = None,
           ses_duration_seconds = None, errors = []\<rparr>
          ''Whole Flower''
          (scrape_single_category ''Whole Flower'' None
            (Inr [(''Miami, FL'', ''https://test.com/miami'')]) (mock_scrape ''Whole Flower'') 0 1))
        ''Pre-Rolls''
        (scrape_single_category ''Pre-Rolls'' None
          (Inr [(''Miami, FL'', ''https://test.com/miami'')]) (mock_scrape ''Pre-Rolls'') 1 2)"
  have names: "map (\<lambda>cr. map store (res_products (snd cr))) (results S)
      = [[''Miami, FL''], [''Miami, FL'']]"
    unfolding S_def by code_simp
  have counts: "map (\<lambda>cr. res_store_count (snd cr)) (results S) = [1, 1]"
    unfolding S_def by code_simp
  from finalize_total_stores [of S 3]
  have "total_stores (finalize S 3)
      = card (set (concat (map (\<lambda>cr. map store (res_products (snd cr))) (results S))))"
    by (simp only: result_stores_concat)
  with names have "total_stores (finalize S 3) = 1" by simp
  moreover from counts have "sum_list (map (\<lambda>cr. res_store_count (snd cr)) (results S)) = 2"
    by simp
  ultimately show ?thesis unfolding S_def by blast
qed

subsection \<open>Bulk loader\<close>

text \<open>
  C8. Loading an empty product list returns a successful outcome with no row inserted,
  and leaves the client as it was: its log gains no use of the connection, no write, no
  rollback or commit and no sleep. The same holds through the per-category loader for
  a category that has a table.
\<close>

theorem insert_products_empty:
  "insert_products w [] table_name st =
     (\<lparr>ins_table_name = table_name, ins_category = ''unknown'', ins_success = True,
       rows_inserted = 0, rows_failed = 0, ins_error_message = None,
       ins_duration_seconds = Some 0\<rparr>, st)
   \<and> db_log (snd (insert_products w [] table_name st)) = db_log st
   \<and> (tables category = Some table_name \<longrightarrow>
        insert_products_by_category w tables [(category, [])] st =
          ([(category,
             \<lparr>ins_table_name = table_name, ins_category = ''unknown'', ins_success = True,
              rows_inserted = 0, rows_failed = 0, ins_error_message = None,
              ins_duration_seconds = Some 0\<rparr>)], st))"
  by (simp add: insert_products_def insert_products_by_category_def)

theorem insert_products_empty_witness:
  "DEFAULT_TABLES ''Pre-Rolls'' = Some ''TL_Scrape_Pre_Rolls''
   \<and> insert_products_by_category accepting_world DEFAULT_TABLES [(''Pre-Rolls'', [])]
        \<lparr>connected = True, db_log = []\<rparr> =
          ([(''Pre-Rolls'',
             \<lparr>ins_table_name = ''TL_Scrape_Pre_Rolls'', ins_category = ''unknown'',
              ins_success = True, rows_inserted = 0, rows_failed = 0,
              ins_error_message = None, ins_duration_seconds = Some 0\<rparr>)],
           \<lparr>connected = True, db_log = []\<rparr>)"
proof -
  have t: "DEFAULT_TABLES ''Pre-Rolls'' = Some ''TL_Scrape_Pre_Rolls''"
    by (simp add: DEFAULT_TABLES_def)
  from insert_products_empty
      [of accepting_world "''TL_Scrape_Pre_Rolls''" "\<lparr>connected = True, db_log = []\<rparr>"
        DEFAULT_TABLES "''Pre-Rolls''"] t
  show ?thesis by blast
qed

lemma by_category_loop_filter:
  assumes "\<forall>c. tables c \<noteq> None \<longrightarrow> map_of res c = map_of res' c"
  shows "snd (by_category_loop w tables items (res, st)) =
           snd (by_category_loop w tables (filter (\<lambda>i. tables (fst i) \<noteq> None) items) (res', st))
         \<and> (\<forall>c. tables c \<noteq> None \<longrightarrow>
               map_of (fst (by_category_loop w tables items (res, st))) c =
               map_of (fst (by_category_loop w tables
                  (filter (\<lambda>i. tables (fst i) \<noteq> None) items) (res', st))) c)"
  using assms
proof (induction items arbitrary: res res' st)
  case Nil
  then show ?case by simp
next
  case (Cons i items)
  obtain category products where i: "i = (category, products)" by (cases i)
  show ?case
  proof (cases "tables category")
    case None
    have "\<forall>c. tables c \<noteq> None \<longrightarrow>
        map_of (AList.update category (no_mapping_result category) res) c = map_of res' c"
      using Cons.prems None by (auto simp: update_conv')
    from Cons.IH [OF this, of st] None i show ?thesis by simp
  next
    case (Some table_name)
    obtain result st' where r: "insert_products w products table_name st = (result, st')"
      by (cases "insert_products w products table_name st")
    have "\<forall>c. tables c \<noteq> None \<longrightarrow>
        map_of (AList.update category result res) c
          = map_of (AList.update category result res') c"
      using Cons.prems by (auto simp: update_conv')
    from Cons.IH [OF this, of st'] Some i r show ?thesis by simp
  qed
qed

lemma by_category_loop_unmapped:
  assumes "tables cat = None"
  shows "map_of (fst (by_category_loop w tables items (res, st))) cat =
           (if cat \<in> fst ` set items then Some (no_mapping_result cat) else map_of res cat)"
  using assms
proof (induction items arbitrary: res st)
  case Nil
  then show ?case by simp
next
  case (Cons i items)
  obtain category products where i: "i = (category, products)" by (cases i)
  show ?case
  proof (cases "tables category")
    case None
    from Cons.IH [OF Cons.prems, of "AList.update category (no_mapping_result category) res" st]
      None i show ?thesis
      by (auto simp: update_conv')
  next
    case (Some table_name)
    with Cons.prems have ne: "category \<noteq> cat" by auto
    obtain result st' where r: "insert_products w products table_name st = (result, st')"
      by (cases "insert_products w products table_name st")
    from Cons.IH [OF Cons.prems, of "AList.update category result res" st'] Some i r ne
    show ?thesis
      by (auto simp: update_conv')
  qed
qed

text \<open>
  C9. A category without a table is answered at once with a failed outcome that names
  the missing mapping, and the client is left as it was: the loop goes on to the next
  category from the same state. So the client after the whole call, its log of
  connection uses, writes and sleeps included, is the client after loading the
  categories that have a table alone, and these get the same outcomes as when loaded
  alone: they are attempted all the same.
\<close>

theorem unmapped_category_fails_at_once:
  "(tables cat = None \<longrightarrow>
      by_category_loop w tables ((cat, products) # rest) (res, st) =
        by_category_loop w tables rest
          (AList.update cat
             \<lparr>ins_table_name = ''unknown'', ins_category = cat, ins_success = False,
              rows_inserted = 0, rows_failed = 0,
              ins_error_message = Some (''No table mapping for category: '' @ cat),
              ins_duration_seconds = None\<rparr> res, st))
   \<and> (tables cat = None \<and> cat \<in> fst ` set items \<longrightarrow>
        map_of (fst (insert_products_by_category w tables items st)) cat =
          Some \<lparr>ins_table_name = ''unknown'', ins_category = cat, ins_success = False,
                rows_inserted = 0, rows_failed = 0,
                ins_error_message = Some (''No table mapping for category: '' @ cat),
                ins_duration_seconds = None\<rparr>)
   \<and> snd (insert_products_by_category w tables items st) =
        snd (insert_products_by_category w tables
               (filter (\<lambda>i. tables (fst i) \<noteq> None) items) st)
   \<and> (\<forall>c. tables c \<noteq> None \<longrightarrow>
        map_of (fst (insert_products_by_category w tables items st)) c =
        map_of (fst (insert_products_by_category w tables
               (filter (\<lambda>i. tables (fst i) \<noteq> None) items) st)) c)"
proof (intro conjI impI)
  assume "tables cat = None"
  then show "by_category_loop w tables ((cat, products) # rest) (res, st) =
        by_category_loop w tables rest
          (AList.update cat
             \<lparr>ins_table_name = ''unknown'', ins_category = cat, ins_success = False,
              rows_inserted = 0, rows_failed = 0,
              ins_error_message = Some (''No table mapping for category: '' @ cat),
              ins_duration_seconds = None\<rparr> res, st)"
    by (simp add: no_mapping_result_def failed_insert_def)
next
  assume "tables cat = None \<and> cat \<in> fst ` set items"
  then show "map_of (fst (insert_products_by_category w tables items st)) cat =
          Some \<lparr>ins_table_name = ''unknown'', ins_category = cat, ins_success = False,
                rows_inserted = 0, rows_failed = 0,
                ins_error_message = Some (''No table mapping for category: '' @ cat),
                ins_duration_seconds = None\<rparr>"
    using by_category_loop_unmapped [of tables cat w items "[]" st]
    by (simp add: insert_products_by_category_def no_mapping_result_def failed_insert_def)
next
  have agree: "\<forall>c. tables c \<noteq> None \<longrightarrow>
      map_of ([] :: (string \<times> insert_result) list) c = map_of [] c"
    by simp
  from by_category_loop_filter [OF agree, of w items st]
  show "snd (insert_products_by_category w tables items st) =
        snd (insert_products_by_category w tables
               (filter (\<lambda>i. tables (fst i) \<noteq> None) items) st)"
    by (simp add: insert_products_by_category_def)
  from by_category_loop_filter [OF agree, of w items st]
  show "\<forall>c. tables c \<noteq> None \<longrightarrow>
        map_of (fst (insert_products_by_category w tables items st)) c =
        map_of (fst (insert_products_by_category w tables
               (filter (\<lambda>i. tables (fst i) \<noteq> None) items) st)) c"
    by (simp add: insert_products_by_category_def)
qed

theorem unmapped_category_fails_at_once_witness:
  "DEFAULT_TABLES ''Edibles'' = None
   \<and> map_of (fst (insert_products_by_category accepting_world DEFAULT_TABLES
        [(''Edibles'', [test_product ''Miami, FL'' ''Edibles'']),
         (''Whole Flower'', [test_product ''Miami, FL'' ''Whole Flower''])]
        \<lparr>connected = True, db_log = []\<rparr>)) ''Edibles'' =
          Some \<lparr>ins_table_name = ''unknown'', ins_category = ''Edibles'', ins_success = False,
                rows_inserted = 0, rows_failed = 0,
                ins_error_message = Some ''No table mapping for category: Edibles'',
                ins_duration_seconds = None\<rparr>
   \<and> db_log (snd (insert_products_by_category accepting_world DEFAULT_TABLES
        [(''Edibles'', [test_product ''Miami, FL'' ''Edibles'']),
         (''Whole Flower'', [test_product ''Miami, FL'' ''Whole Flower''])]
        \<lparr>connected = True, db_log = []\<rparr>)) =
          [GetConnection, WritePandas ''TL_Scrape_WHOLE_FLOWER'' 1, Commit]
   \<and> map_option ins_success (map_of (fst (insert_products_by_category accepting_world
        DEFAULT_TABLES
        [(''Edibles'', [test_product ''Miami, FL'' ''Edibles'']),
         (''Whole Flower'', [test_product ''Miami, FL'' ''Whole Flower''])]
        \<lparr>connected = True, db_log = []\<rparr>)) ''Whole Flower'') = Some True"
proof -
  define items where "items =
        [(''Edibles'', [test_product ''Miami, FL'' ''Edibles'']),
         (''Whole Flower'', [test_product ''Miami, FL'' ''Whole Flower''])]"
  define st0 where "st0 = \<lparr>connected = True, db_log = []\<rparr>"
  have t1: "DEFAULT_TABLES ''Edibles'' = None"
    by (simp add: DEFAULT_TABLES_def)
  have t2: "DEFAULT_TABLES ''Whole Flower'' = Some ''TL_Scrape_WHOLE_FLOWER''"
    by (simp add: DEFAULT_TABLES_def)
  have mem: "''Edibles'' \<in> fst ` set items"
    by (simp add: items_def)
  from unmapped_category_fails_at_once
      [of DEFAULT_TABLES "''Edibles''" accepting_world "[]" "[]" "[]" st0 items] t1 mem
  have a: "map_of (fst (insert_products_by_category accepting_world DEFAULT_TABLES items st0))
      ''Edibles'' =
          Some \<lparr>ins_table_name = ''unknown'', ins_category = ''Edibles'', ins_success = False,
                rows_inserted = 0, rows_failed = 0,
                ins_error_message = Some ''No table mapping for category: Edibles'',
                ins_duration_seconds = None\<rparr>"
    by simp
  have b: "db_log (snd (insert_products_by_category accepting_world DEFAULT_TABLES items st0)) =
          [GetConnection, WritePandas ''TL_Scrape_WHOLE_FLOWER'' 1, Commit]"
    using t1 t2
    by (simp add: items_def st0_def insert_products_by_category_def insert_products_def
        insert_attempt_def log_events_def accepting_world_def test_product_def)
  have c: "map_option ins_success (map_of (fst (insert_products_by_category accepting_world
        DEFAULT_TABLES items st0)) ''Whole Flower'') = Some True"
    using t1 t2
    by (simp add: items_def st0_def insert_products_by_category_def insert_products_def
        insert_attempt_def log_events_def accepting_world_def test_product_def)
  from t1 a b c show ?thesis
    unfolding items_def st0_def by blast
qed

end
